theory Spec2Isabelle
  imports Main "HOL-Library.AList"
begin

section \<open>Values of the host language\<close>

text \<open>
  Strings are \<^typ>\<open>string\<close>. A value of type \<open>string | undefined\<close> is a
  \<^typ>\<open>string option\<close>; it is falsy when it is \<open>undefined\<close> or the empty string.
\<close>

definition dquote :: char where
  "dquote = CHR 0x22"

definition squote :: char where
  "squote = CHR 0x27"

definition truthy :: "string option \<Rightarrow> bool" where
  "truthy v = (case v of None \<Rightarrow> False | Some s \<Rightarrow> s \<noteq> [])"

text \<open>\<open>a || b\<close> on \<open>string | undefined\<close>, and \<open>a || 'literal'\<close>.\<close>

definition or_else :: "string option \<Rightarrow> string option \<Rightarrow> string option" where
  "or_else a b = (if truthy a then a else b)"

definition or_default :: "string option \<Rightarrow> string \<Rightarrow> string" where
  "or_default a d = (case a of None \<Rightarrow> d | Some s \<Rightarrow> if s = [] then d else s)"

text \<open>\<open>Array.prototype.join\<close> on an array of strings.\<close>

fun join_with :: "string \<Rightarrow> string list \<Rightarrow> string" where
  "join_with sep [] = []"
| "join_with sep [x] = x"
| "join_with sep (x # y # ys) = x @ sep @ join_with sep (y # ys)"

text \<open>
  \<open>Number.prototype.toString\<close> on the integers that file metadata holds (an integer
  of magnitude below \<open>10^21\<close> prints as its decimal digits).
\<close>

function show_nat :: "nat \<Rightarrow> string" where
  "show_nat n =
     (if n < 10 then [''0123456789'' ! n]
      else show_nat (n div 10) @ [''0123456789'' ! (n mod 10)])"
  by pat_completeness auto
termination
  by (relation "measure id") auto

declare show_nat.simps [simp del]

definition Number_toString :: "int \<Rightarrow> string" where
  "Number_toString i = (if i < 0 then ''-'' @ show_nat (nat (- i)) else show_nat (nat i))"

text \<open>\<open>String.prototype.endsWith\<close>, \<open>indexOf\<close> (\<open>None\<close> for \<open>-1\<close>) and \<open>includes\<close>.\<close>

definition endsWith :: "string \<Rightarrow> string \<Rightarrow> bool" where
  "endsWith s t = (length t \<le> length s \<and> drop (length s - length t) s = t)"

fun indexOf :: "string \<Rightarrow> string \<Rightarrow> nat option" where
  "indexOf [] t = (if t = [] then Some 0 else None)"
| "indexOf (c # cs) t =
     (if take (length t) (c # cs) = t then Some 0 else map_option Suc (indexOf cs t))"

definition includes_str :: "string \<Rightarrow> string \<Rightarrow> bool" where
  "includes_str s t = (indexOf s t \<noteq> None)"

section \<open>Requests, responses and the environment of the server\<close>

text \<open>
  A parsed query (\<open>ParsedUrlQuery\<close>) maps a key to a string or to an array of strings.
  It is kept as an association list in the enumeration order of \<open>for (key in query)\<close>;
  the keys of an object are distinct.
\<close>

datatype query_value = QString string | QArray "string list"

type_synonym ParsedUrlQuery = "(string \<times> query_value) list"

record UrlWithParsedQuery =
  pathname :: string
  query :: ParsedUrlQuery

text \<open>
  \<open>req.headers\<close> of an \<open>http.IncomingMessage\<close>: the header names are lower-cased by
  the HTTP parser, which is why the source reads \<open>req.headers.host\<close>,
  \<open>req.headers.forwarded\<close> and \<open>req.headers['if-none-match']\<close>.
\<close>

record IncomingMessage =
  req_headers :: "string \<rightharpoonup> string"

record UriComponents =
  uri_scheme :: string
  uri_authority :: "string option"
  uri_path :: "string option"
  uri_query :: "string option"
  uri_fragment :: "string option"

record Stats =
  stat_ino :: nat
  stat_size :: nat
  stat_mtime :: int

datatype fs_error = ENOENT | EOTHER

datatype fs_op = Stat string | CreateReadStream string | ReadFile string

record ClientTheme =
  backgroundColor :: string
  foregroundColor :: string

text \<open>
  What is written to \<open>res\<close>. A body that the source produces by streaming a file, by
  \<open>JSON.stringify\<close> or by filling a template is kept as the call that produces it.
\<close>

datatype body =
  NoBody
  | Text string
  | FileStream string
  | JsonUri "UriComponents option"
  | JsonError nat string string
  | ErrorPage string string nat string string ClientTheme

record response =
  statusCode :: nat
  statusMessage :: "string option"
  headers :: "(string \<times> string) list"
  body :: body

text \<open>
  The outcome of an asynchronous handler: the file-system calls it made, and the response
  it wrote; \<open>None\<close> when its promise was rejected by an exception before a response
  was ended.
\<close>

record outcome =
  fs_ops :: "fs_op list"
  result :: "response option"

text \<open>
  Functions of the run time and of modules that are not part of these sources
  (\<open>decodeURIComponent\<close>, \<open>vs/base/common/path\<close>, \<open>vs/base/common/mime\<close>,
  \<open>vs/base/common/extpath\<close>, \<open>vs/base/common/strings\<close>, \<open>vs/server/common/net\<close>,
  \<open>cookie\<close>, \<open>url\<close>, \<open>URL\<close>, \<open>forwarded-parse\<close>, \<open>crypto\<close>) are parameters of the
  model. \<open>cookie_serialize name value sameSite maxAge\<close> is \<open>cookie.serialize\<close> with the
  options \<open>{ sameSite, maxAge }\<close>; \<open>url_format pathname query\<close> is \<open>url.format\<close> of
  \<open>{ pathname, query }\<close>; \<open>sha256_base64\<close> is the SHA-256 digest of a string in base64.
  \<open>None\<close> stands for a thrown exception.
\<close>

record ParsedPath =
  pp_dir :: string
  pp_base :: string
  pp_ext :: string

record URL =
  url_protocol :: string
  url_hostname :: string
  url_port :: string

record Forwarded =
  fwd_proto :: "string option"
  fwd_host :: "string option"

record platform =
  decodeURIComponent :: "string \<Rightarrow> string option"
  path_parse :: "string \<Rightarrow> ParsedPath"
  extname :: "string \<Rightarrow> string"
  normalize :: "string \<Rightarrow> string"
  join :: "string list \<Rightarrow> string"
  getPathPrefix :: "string \<Rightarrow> string"
  getMediaMime :: "string \<Rightarrow> string option"
  isEqualOrParent :: "string \<Rightarrow> string \<Rightarrow> bool \<Rightarrow> bool"
  isFalsyOrWhitespace :: "string option \<Rightarrow> bool"
  parseForwardHeader :: "string \<Rightarrow> Forwarded list option"
  new_URL :: "string \<Rightarrow> URL option"
  cookie_serialize :: "string \<Rightarrow> string \<Rightarrow> string \<Rightarrow> nat \<Rightarrow> string"
  url_format :: "string \<Rightarrow> ParsedUrlQuery \<Rightarrow> string"
  sha256_base64 :: "string \<Rightarrow> string"

text \<open>
  The server object and the world it runs in: the constants of the module, the product and
  environment services, the theme service and the file system.
\<close>

record server =
  APP_ROOT :: string
  isLinux :: bool
  serviceWorkerFileName :: string
  serviceWorkerPath :: string
  urlProtocol :: string
  applicationName :: string
  commit :: "string option"
  version :: string
  callback_html :: string
  workbench_error_html :: string
  fetchClientTheme :: "ClientTheme option"
  fs_stat :: "string \<Rightarrow> fs_error + Stats"
  fs_readFile :: "string \<Rightarrow> string option"

section \<open>Serving a file\<close>

definition textMimeType :: "(string \<times> string) list" where
  "textMimeType =
     [(''.html'', ''text/html''),
      (''.js'', ''text/javascript''),
      (''.json'', ''application/json''),
      (''.css'', ''text/css''),
      (''.svg'', ''image/svg+xml'')]"

definition etag_of :: "Stats \<Rightarrow> string" where
  "etag_of stat =
     ''W/'' @ [dquote] @
     join_with ''-''
       [Number_toString (int (stat_ino stat)),
        Number_toString (int (stat_size stat)),
        Number_toString (stat_mtime stat)] @
     [dquote]"

definition content_type_of :: "platform \<Rightarrow> string \<Rightarrow> string" where
  "content_type_of P filePath =
     or_default
       (or_else (map_of textMimeType (extname P filePath)) (getMediaMime P filePath))
       ''text/plain''"

text \<open>
  \<open>serveFile\<close>: any error of \<open>fs.stat\<close> is answered with 404 (the log entry for an error
  other than \<open>ENOENT\<close> is not part of the response and is not modelled). Assigning to a
  key of the header object is \<^const>\<open>AList.update\<close>.
\<close>

definition serveFile ::
  "platform \<Rightarrow> server \<Rightarrow> IncomingMessage \<Rightarrow> string \<Rightarrow> (string \<times> string) list \<Rightarrow> outcome" where
  "serveFile P S req filePath responseHeaders =
     (case fs_stat S filePath of
        Inl error \<Rightarrow>
          \<lparr>fs_ops = [Stat filePath],
           result = Some \<lparr>statusCode = 404, statusMessage = None,
             headers = [(''Content-Type'', ''text/plain'')], body = Text ''Not found''\<rparr>\<rparr>
      | Inr stat \<Rightarrow>
          (let etag = etag_of stat in
           if req_headers req ''if-none-match'' = Some etag then
             \<lparr>fs_ops = [Stat filePath],
              result = Some \<lparr>statusCode = 304, statusMessage = None,
                headers = [], body = NoBody\<rparr>\<rparr>
           else
             (let h1 = AList.update ''Content-Type'' (content_type_of P filePath) responseHeaders;
                  h2 = AList.update ''Etag'' etag h1
              in \<lparr>fs_ops = [Stat filePath, CreateReadStream filePath],
                  result = Some \<lparr>statusCode = 200, statusMessage = None,
                    headers = h2, body = FileStream filePath\<rparr>\<rparr>)))"

section \<open>The callback broker\<close>

type_synonym callbacks = "string \<rightharpoonup> UriComponents"

definition getFirstQueryValue :: "UrlWithParsedQuery \<Rightarrow> string \<Rightarrow> string option" where
  "getFirstQueryValue parsedUrl key =
     (case map_of (query parsedUrl) key of
        None \<Rightarrow> None
      | Some (QString s) \<Rightarrow> Some s
      | Some (QArray xs) \<Rightarrow> (case xs of [] \<Rightarrow> None | x # _ \<Rightarrow> Some x))"

text \<open>
  \<open>_getFirstQueryValues\<close>: the loop over the keys of the query; \<open>Map.set\<close> is
  \<^const>\<open>AList.update\<close> (a new key goes to the end, a known key keeps its place).
\<close>

fun getFirstQueryValues_loop ::
  "UrlWithParsedQuery \<Rightarrow> string list option \<Rightarrow> string list \<Rightarrow> (string \<times> string) list
     \<Rightarrow> (string \<times> string) list" where
  "getFirstQueryValues_loop parsedUrl ignoreKeys [] queryValues = queryValues"
| "getFirstQueryValues_loop parsedUrl ignoreKeys (key # keys) queryValues =
     (if (case ignoreKeys of None \<Rightarrow> False | Some ks \<Rightarrow> key \<in> set ks) then
        getFirstQueryValues_loop parsedUrl ignoreKeys keys queryValues
      else
        (case getFirstQueryValue parsedUrl key of
           Some v \<Rightarrow>
             getFirstQueryValues_loop parsedUrl ignoreKeys keys (AList.update key v queryValues)
         | None \<Rightarrow> getFirstQueryValues_loop parsedUrl ignoreKeys keys queryValues))"

definition getFirstQueryValues ::
  "UrlWithParsedQuery \<Rightarrow> string list option \<Rightarrow> (string \<times> string) list" where
  "getFirstQueryValues parsedUrl ignoreKeys =
     getFirstQueryValues_loop parsedUrl ignoreKeys (map fst (query parsedUrl)) []"

definition wellKnownKeys :: "string list" where
  "wellKnownKeys =
     [''vscode-requestId'', ''vscode-scheme'', ''vscode-authority'', ''vscode-path'',
      ''vscode-query'', ''vscode-fragment'']"

text \<open>
  The function mapped over \<open>wellKnownKeys\<close>: a truthy value is decoded, a falsy one
  (undefined, or the empty string) is returned as it is. The outer \<open>None\<close> is the \<open>URIError\<close> of \<open>decodeURIComponent\<close>.
\<close>

definition decodeQueryValue ::
  "platform \<Rightarrow> UrlWithParsedQuery \<Rightarrow> string \<Rightarrow> string option option" where
  "decodeQueryValue P parsedUrl key =
     (case getFirstQueryValue parsedUrl key of
        None \<Rightarrow> Some None
      | Some v \<Rightarrow> if v = [] then Some (Some v) else map_option Some (decodeURIComponent P v))"

text \<open>
  The \<open>forEach\<close> that merges the additional query values: the state is the variable
  \<open>query\<close> (here \<open>qry\<close>) and the counter \<open>index\<close>. A falsy \<open>query\<close>, undefined or
  empty, becomes the empty string.
\<close>

fun mergeQuery :: "(string \<times> string) list \<Rightarrow> string option \<Rightarrow> nat \<Rightarrow> string option" where
  "mergeQuery [] qry index = qry"
| "mergeQuery ((key, v) # rest) qry index =
     (let query1 = (case qry of None \<Rightarrow> [] | Some text \<Rightarrow> text);
          prefix = (if index = 0 then [] else ''&'')
      in mergeQuery rest (Some (query1 @ prefix @ key @ ''='' @ v)) (index + 1))"

text \<open>
  Modelled from the spec: \<open>URI.from(...).toJSON()\<close> of \<open>vs/base/common/uri\<close> is not
  among the sources. The spec describes the stored value as the URI-components
  \<open>{ scheme, authority, path, query, fragment }\<close> composed from the arguments.
\<close>

definition URI_from_toJSON :: "UriComponents \<Rightarrow> UriComponents" where
  "URI_from_toJSON components = components"

definition bad_request_plain :: outcome where
  "bad_request_plain =
     \<lparr>fs_ops = [],
      result = Some \<lparr>statusCode = 400, statusMessage = None,
        headers = [(''Content-Type'', ''text/plain'')], body = Text ''Bad request.''\<rparr>\<rparr>"

definition rejected :: outcome where
  "rejected = \<lparr>fs_ops = [], result = None\<rparr>"

definition handleCallback ::
  "platform \<Rightarrow> server \<Rightarrow> IncomingMessage \<Rightarrow> UrlWithParsedQuery \<Rightarrow> callbacks
     \<Rightarrow> callbacks \<times> outcome" where
  "handleCallback P S req parsedUrl mapCallbackUriToRequestId =
     (case those (map (decodeQueryValue P parsedUrl) wellKnownKeys) of
        Some [requestId, vscodeScheme, vscodeAuthority, vscodePath, vscodeQuery, vscodeFragment] \<Rightarrow>
          (case requestId of
             None \<Rightarrow> (mapCallbackUriToRequestId, bad_request_plain)
           | Some rid \<Rightarrow>
               if rid = [] then (mapCallbackUriToRequestId, bad_request_plain)
               else
                 (let qry = mergeQuery (getFirstQueryValues parsedUrl (Some wellKnownKeys))
                              vscodeQuery 0;
                      uri = URI_from_toJSON
                        \<lparr>uri_scheme = or_default vscodeScheme (urlProtocol S),
                         uri_authority = vscodeAuthority,
                         uri_path = vscodePath,
                         uri_query = qry,
                         uri_fragment = vscodeFragment\<rparr>
                  in (mapCallbackUriToRequestId(rid \<mapsto> uri),
                      serveFile P S req (callback_html S) [(''Content-Type'', ''text/html'')])))
      | _ \<Rightarrow> (mapCallbackUriToRequestId, rejected))"

definition handleFetchCallback :: "UrlWithParsedQuery \<Rightarrow> callbacks \<Rightarrow> callbacks \<times> outcome" where
  "handleFetchCallback parsedUrl mapCallbackUriToRequestId =
     (case getFirstQueryValue parsedUrl ''vscode-requestId'' of
        None \<Rightarrow> (mapCallbackUriToRequestId, bad_request_plain)
      | Some requestId \<Rightarrow>
          if requestId = [] then (mapCallbackUriToRequestId, bad_request_plain)
          else
            (let knownCallbackUri = mapCallbackUriToRequestId requestId in
             ((case knownCallbackUri of
                 None \<Rightarrow> mapCallbackUriToRequestId
               | Some u \<Rightarrow> mapCallbackUriToRequestId(requestId := None)),
              \<lparr>fs_ops = [],
               result = Some \<lparr>statusCode = 200, statusMessage = None,
                 headers = [(''Content-Type'', ''text/json'')],
                 body = JsonUri knownCallbackUri\<rparr>\<rparr>)))"

section \<open>Error pages\<close>

definition serveError :: "server \<Rightarrow> nat \<Rightarrow> string \<Rightarrow> UrlWithParsedQuery option \<Rightarrow> outcome" where
  "serveError S code message parsedUrl =
     (let commit1 = (case commit S of None \<Rightarrow> ''development'' | Some c \<Rightarrow> c) in
      if (case parsedUrl of None \<Rightarrow> False | Some u \<Rightarrow> endsWith (pathname u) ''.json'') then
        \<lparr>fs_ops = [],
         result = Some \<lparr>statusCode = code, statusMessage = Some message,
           headers = [(''Content-Type'', ''application/json'')],
           body = JsonError code message commit1\<rparr>\<rparr>
      else
        (case fetchClientTheme S of
           None \<Rightarrow> \<lparr>fs_ops = [], result = None\<rparr>
         | Some clientTheme \<Rightarrow>
             (case fs_readFile S (workbench_error_html S) of
                None \<Rightarrow> \<lparr>fs_ops = [ReadFile (workbench_error_html S)], result = None\<rparr>
              | Some template \<Rightarrow>
                  \<lparr>fs_ops = [ReadFile (workbench_error_html S)],
                   result = Some \<lparr>statusCode = code, statusMessage = Some message,
                     headers = [(''Content-Type'', ''text/html'')],
                     body = ErrorPage template (applicationName S) code message
                       (version S @ '' - '' @ commit1) clientTheme\<rparr>\<rparr>)))"

section \<open>Static assets\<close>

definition handleStatic ::
  "platform \<Rightarrow> server \<Rightarrow> IncomingMessage \<Rightarrow> UrlWithParsedQuery \<Rightarrow> outcome" where
  "handleStatic P S req parsedUrl =
     (case decodeURIComponent P (pathname parsedUrl) of
        None \<Rightarrow> rejected
      | Some normalizedPathname \<Rightarrow>
          (let relativeFilePath = normalize P (drop (length ''/static/'') normalizedPathname);
               filePath = join P [APP_ROOT S, relativeFilePath]
           in if \<not> isEqualOrParent P filePath (APP_ROOT S) (\<not> isLinux S) then
                serveError S 400 ''Bad request.'' (Some parsedUrl)
              else serveFile P S req filePath []))"

section \<open>The dispatcher\<close>

text \<open>
  The request is an event emitter. \<open>req.emit('error', error)\<close> throws \<open>error\<close> when the
  request has no listener for error events; otherwise it calls the listeners, and returns
  when they return, or throws what a listener throws. The listeners are code of the
  embedding server.
\<close>

datatype error_listeners = NoListener | ListenersReturn | ListenerThrows

record RequestEmitter = IncomingMessage +
  error_listeners :: error_listeners

text \<open>
  What \<open>handle\<close> does is a sequence of calls: of a handler, of the listeners for an error
  event, of \<open>serveError\<close>.
\<close>

datatype dispatch =
  HandleManifest UrlWithParsedQuery
  | ServeFile string "(string \<times> string) list"
  | HandleStatic UrlWithParsedQuery
  | HandleCallback UrlWithParsedQuery
  | HandleFetchCallback UrlWithParsedQuery
  | HandleRoot UrlWithParsedQuery
  | EmitError string
  | ServeError nat string UrlWithParsedQuery

text \<open>A block of statements returns or throws, after the calls that it has made.\<close>

datatype attempt = Returned "dispatch list" | Threw "dispatch list"

text \<open>\<open>req.emit('error', new Error(message))\<close>, followed by \<open>return\<close>.\<close>

definition emit_error :: "RequestEmitter \<Rightarrow> string \<Rightarrow> attempt" where
  "emit_error req message =
     (case error_listeners req of
        NoListener \<Rightarrow> Threw []
      | ListenersReturn \<Rightarrow> Returned [EmitError message]
      | ListenerThrows \<Rightarrow> Threw [EmitError message])"

text \<open>
  The \<open>try\<close> block of \<open>handle\<close>. The path name is a string, as the source asserts with
  \<open>pathname!\<close>. The handlers are \<open>async\<close> functions: a call of one returns a promise and
  does not throw, so the statement of the block that can throw is \<open>req.emit\<close>.
\<close>

definition handle_try ::
  "platform \<Rightarrow> server \<Rightarrow> RequestEmitter \<Rightarrow> UrlWithParsedQuery \<Rightarrow> attempt" where
  "handle_try P S req parsedUrl =
     (let pathname1 = pathname parsedUrl;
          parsedPath = path_parse P pathname1;
          pathPrefix = getPathPrefix P pathname1
      in
      if pp_base parsedPath \<in> set [''manifest.json'', ''webmanifest.json''] then
        Returned [HandleManifest parsedUrl]
      else if pp_base parsedPath \<in> set [''favicon.ico'', ''code-192.png'', ''code-512.png''] then
        Returned
          [ServeFile (join P [APP_ROOT S, ''resources'', ''server'', pp_base parsedPath]) []]
      else if pp_base parsedPath = serviceWorkerFileName S then
        Returned [ServeFile (serviceWorkerPath S) [(''Service-Worker-Allowed'', pathPrefix)]]
      else if includes_str (pp_dir parsedPath) ''/static/'' \<and> pp_ext parsedPath \<noteq> [] then
        Returned [HandleStatic (parsedUrl\<lparr>pathname :=
          drop (case indexOf pathname1 ''/static/'' of None \<Rightarrow> 0 | Some i \<Rightarrow> i) pathname1\<rparr>)]
      else if pp_base parsedPath = ''callback'' then Returned [HandleCallback parsedUrl]
      else if pp_base parsedPath = ''fetch-callback'' then Returned [HandleFetchCallback parsedUrl]
      else if endsWith pathname1 ''/'' then Returned [HandleRoot parsedUrl]
      else emit_error req ([dquote] @ pathname1 @ [dquote] @ '' not found.''))"

text \<open>
  \<open>handle\<close>: the \<open>try\<close> block, and the \<open>catch\<close>, which serves the error page with the
  status 500.
\<close>

definition handle ::
  "platform \<Rightarrow> server \<Rightarrow> RequestEmitter \<Rightarrow> UrlWithParsedQuery \<Rightarrow> dispatch list" where
  "handle P S req parsedUrl =
     (case handle_try P S req parsedUrl of
        Returned calls \<Rightarrow> calls
      | Threw calls \<Rightarrow> calls @ [ServeError 500 ''Internal Server Error.'' parsedUrl])"

section \<open>The root document\<close>

fun parseHeaders :: "platform \<Rightarrow> IncomingMessage \<Rightarrow> string list \<Rightarrow> string option" where
  "parseHeaders P req [] = None"
| "parseHeaders P req (headerName # headerNames) =
     (let header = req_headers req headerName in
      if \<not> isFalsyOrWhitespace P header then header
      else parseHeaders P req headerNames)"

text \<open>A template literal prints \<open>undefined\<close> for a missing value.\<close>

definition template_value :: "string option \<Rightarrow> string" where
  "template_value v = (case v of None \<Rightarrow> ''undefined'' | Some s \<Rightarrow> s)"

text \<open>
  The string that \<open>getRemoteAuthority\<close> hands to the \<open>URL\<close> constructor; \<open>None\<close> when
  parsing the \<open>Forwarded\<close> header throws, or yields no element to read \<open>proto\<close> from.
\<close>

definition remoteAuthority_input :: "platform \<Rightarrow> IncomingMessage \<Rightarrow> string option" where
  "remoteAuthority_input P req =
     (if truthy (req_headers req ''forwarded'') then
        (case parseForwardHeader P (or_default (req_headers req ''forwarded'') []) of
           None \<Rightarrow> None
         | Some [] \<Rightarrow> None
         | Some (parsedHeader # others) \<Rightarrow>
             Some (template_value (fwd_proto parsedHeader) @ ''://'' @
                   template_value (fwd_host parsedHeader)))
      else
        (let proto = or_default (parseHeaders P req [''X-Forwarded-Proto'']) ''http'';
             host = or_default (parseHeaders P req [''X-Forwarded-Host'', ''host'']) ''localhost''
         in Some (proto @ ''://'' @ host)))"

definition getRemoteAuthority :: "platform \<Rightarrow> IncomingMessage \<Rightarrow> URL option" where
  "getRemoteAuthority P req =
     (case remoteAuthority_input P req of None \<Rightarrow> None | Some href \<Rightarrow> new_URL P href)"

text \<open>The \<open>remoteAuthority\<close> field of the configuration: the host name with an explicit port.\<close>

definition config_remoteAuthority :: "URL \<Rightarrow> string" where
  "config_remoteAuthority remoteAuthority =
     url_hostname remoteAuthority @ '':'' @
     (if url_port remoteAuthority \<noteq> [] then url_port remoteAuthority
      else if url_protocol remoteAuthority = ''https:'' then ''443'' else ''80'')"

text \<open>The loop that copies every key but \<open>tkn\<close> into \<open>newQuery\<close>.\<close>

fun newQuery_loop :: "ParsedUrlQuery \<Rightarrow> string list \<Rightarrow> ParsedUrlQuery \<Rightarrow> ParsedUrlQuery" where
  "newQuery_loop q [] newQuery = newQuery"
| "newQuery_loop q (key # keys) newQuery =
     (if key \<noteq> ''tkn'' then
        (case map_of q key of
           Some v \<Rightarrow> newQuery_loop q keys (AList.update key v newQuery)
         | None \<Rightarrow> newQuery_loop q keys newQuery)
      else newQuery_loop q keys newQuery)"

text \<open>
  \<open>_handleRoot\<close> up to the point where the page is rendered: it answers 400, redirects,
  or goes on to render the workbench page for the remote authority (the rest of the
  rendering, lines 281 to 362 of the source, is not modelled).
\<close>

datatype root_step =
  Responded outcome
  | RenderWorkbench URL string

definition handleRoot ::
  "platform \<Rightarrow> server \<Rightarrow> IncomingMessage \<Rightarrow> UrlWithParsedQuery \<Rightarrow> root_step" where
  "handleRoot P S req parsedUrl =
     (if \<not> truthy (req_headers req ''host'') then
        Responded (serveError S 400 ''Bad request.'' (Some parsedUrl))
      else
        (case fetchClientTheme S of
           None \<Rightarrow> Responded rejected
         | Some theme \<Rightarrow>
             (case map_of (query parsedUrl) ''tkn'' of
                Some (QString queryTkn) \<Rightarrow>
                  (let h1 = AList.update ''Set-Cookie''
                         (cookie_serialize P ''vscode-tkn'' queryTkn ''strict'' (60 * 60 * 24 * 7)) [];
                       newQuery = newQuery_loop (query parsedUrl) (map fst (query parsedUrl)) [];
                       newLocation = url_format P ''/'' newQuery;
                       h2 = AList.update ''Location'' newLocation h1
                   in Responded
                        \<lparr>fs_ops = [],
                         result = Some \<lparr>statusCode = 302, statusMessage = None,
                           headers = h2, body = NoBody\<rparr>\<rparr>)
              | _ \<Rightarrow>
                  (case getRemoteAuthority P req of
                     None \<Rightarrow> Responded rejected
                   | Some remoteAuthority \<Rightarrow>
                       RenderWorkbench remoteAuthority (config_remoteAuthority remoteAuthority)))))"

section \<open>Hashes of inline scripts\<close>

text \<open>
  The regular expression \<open>/<script>([\s\S]+?)<\/script>/img\<close>. Case is ignored by
  comparing upper-cased characters; only the letters \<open>a\<close> to \<open>z\<close> have an upper case that
  a letter of the pattern can equal.
\<close>

definition toUpperCase_char :: "char \<Rightarrow> char" where
  "toUpperCase_char c =
     (case map_of (zip ''abcdefghijklmnopqrstuvwxyz'' ''ABCDEFGHIJKLMNOPQRSTUVWXYZ'') c of
        Some u \<Rightarrow> u
      | None \<Rightarrow> c)"

fun matches_literal :: "string \<Rightarrow> string \<Rightarrow> bool" where
  "matches_literal [] s = True"
| "matches_literal (p # ps) [] = False"
| "matches_literal (p # ps) (c # cs) =
     (toUpperCase_char p = toUpperCase_char c \<and> matches_literal ps cs)"

text \<open>
  The lazy group followed by the closing tag, after the first character of the group:
  the shortest extension that is followed by \<open></script>\<close>. The result is the rest of the
  group and the text after the match.
\<close>

fun lazy_group :: "string \<Rightarrow> (string \<times> string) option" where
  "lazy_group [] = None"
| "lazy_group (c # cs) =
     (if matches_literal ''</script>'' (c # cs) then Some ([], drop (length ''</script>'') (c # cs))
      else (case lazy_group cs of None \<Rightarrow> None | Some (g, rest) \<Rightarrow> Some (c # g, rest)))"

text \<open>A match that starts at the first character: the group, and the text after the match.\<close>

definition match_here :: "string \<Rightarrow> (string \<times> string) option" where
  "match_here s =
     (if matches_literal ''<script>'' s then
        (case drop (length ''<script>'') s of
           [] \<Rightarrow> None
         | c # cs \<Rightarrow> (case lazy_group cs of None \<Rightarrow> None | Some (g, rest) \<Rightarrow> Some (c # g, rest)))
      else None)"

text \<open>\<open>regex.exec\<close> on the text from \<open>lastIndex\<close> on: the leftmost match.\<close>

fun regex_exec :: "string \<Rightarrow> (string \<times> string) option" where
  "regex_exec [] = None"
| "regex_exec (c # cs) =
     (case match_here (c # cs) of Some m \<Rightarrow> Some m | None \<Rightarrow> regex_exec cs)"

text \<open>\<open>replace(/\r\n/g, '\n')\<close>.\<close>

fun replace_crlf :: "string \<Rightarrow> string" where
  "replace_crlf (a # b # s) =
     (if a = CHR 0x0D \<and> b = CHR 0x0A then CHR 0x0A # replace_crlf s
      else a # replace_crlf (b # s))"
| "replace_crlf s = s"

definition csp_hash :: "platform \<Rightarrow> string \<Rightarrow> string" where
  "csp_hash P group1 =
     [squote] @ ''sha256-'' @ sha256_base64 P (replace_crlf group1) @ [squote]"

lemma lazy_group_shorter: "lazy_group s = Some (g, rest) \<Longrightarrow> length rest < length s"
  by (induction s arbitrary: g rest) (auto split: if_splits option.splits)

lemma match_here_shorter: "match_here s = Some (g, rest) \<Longrightarrow> length rest < length s"
proof -
  assume m: "match_here s = Some (g, rest)"
  then obtain n c cs g' where d: "drop n s = c # cs" and l: "lazy_group cs = Some (g', rest)"
    by (auto simp: match_here_def split: if_splits list.splits option.splits)
  have "length rest < length cs" using l by (rule lazy_group_shorter)
  also have "length cs < length (drop n s)" using d by simp
  also have "\<dots> \<le> length s" by simp
  finally show ?thesis .
qed

lemma regex_exec_shorter: "regex_exec s = Some (g, rest) \<Longrightarrow> length rest < length s"
proof (induction s)
  case Nil
  then show ?case by simp
next
  case (Cons c cs)
  show ?case
  proof (cases "match_here (c # cs)")
    case None
    with Cons show ?thesis by auto
  next
    case (Some m)
    with Cons.prems have "match_here (c # cs) = Some (g, rest)" by simp
    then show ?thesis by (rule match_here_shorter)
  qed
qed

text \<open>
  \<open>_getScriptCspHashes\<close>: the \<open>while\<close> loop; its state is the text from \<open>lastIndex\<close> on
  and the array \<open>result\<close>.
\<close>

function getScriptCspHashes_loop :: "platform \<Rightarrow> string \<Rightarrow> string list \<Rightarrow> string list" where
  "getScriptCspHashes_loop P s res =
     (case regex_exec s of
        None \<Rightarrow> res
      | Some (group1, rest) \<Rightarrow> getScriptCspHashes_loop P rest (res @ [csp_hash P group1]))"
  by pat_completeness auto
termination
  by (relation "measure (\<lambda>(P, s, res). length s)") (auto dest: regex_exec_shorter)

declare getScriptCspHashes_loop.simps [simp del]

definition getScriptCspHashes :: "platform \<Rightarrow> string \<Rightarrow> string list" where
  "getScriptCspHashes P content = getScriptCspHashes_loop P content []"

section \<open>What the specification says, for comparison\<close>

text \<open>
  The dispatcher as an ordered list of rules, each a predicate and a handler, evaluated
  from the top; the first rule whose predicate holds is taken. The file name of a path is
  the \<open>base\<close> of its parse. When no rule applies, the not-found error is an error event
  on the request.
\<close>

type_synonym rule =
  "(platform \<Rightarrow> server \<Rightarrow> UrlWithParsedQuery \<Rightarrow> bool) \<times>
   (platform \<Rightarrow> server \<Rightarrow> UrlWithParsedQuery \<Rightarrow> dispatch)"

definition is_manifest :: "platform \<Rightarrow> server \<Rightarrow> UrlWithParsedQuery \<Rightarrow> bool" where
  "is_manifest P S u =
     (pp_base (path_parse P (pathname u)) = ''manifest.json'' \<or>
      pp_base (path_parse P (pathname u)) = ''webmanifest.json'')"

definition is_icon :: "platform \<Rightarrow> server \<Rightarrow> UrlWithParsedQuery \<Rightarrow> bool" where
  "is_icon P S u =
     (pp_base (path_parse P (pathname u)) = ''favicon.ico'' \<or>
      pp_base (path_parse P (pathname u)) = ''code-192.png'' \<or>
      pp_base (path_parse P (pathname u)) = ''code-512.png'')"

definition is_service_worker :: "platform \<Rightarrow> server \<Rightarrow> UrlWithParsedQuery \<Rightarrow> bool" where
  "is_service_worker P S u = (pp_base (path_parse P (pathname u)) = serviceWorkerFileName S)"

text \<open>Rule 4 in the words of the spec: the path contains \<open>/static/\<close> and has an extension.\<close>

definition is_static :: "platform \<Rightarrow> server \<Rightarrow> UrlWithParsedQuery \<Rightarrow> bool" where
  "is_static P S u =
     (includes_str (pathname u) ''/static/'' \<and> pp_ext (path_parse P (pathname u)) \<noteq> [])"

definition is_callback :: "platform \<Rightarrow> server \<Rightarrow> UrlWithParsedQuery \<Rightarrow> bool" where
  "is_callback P S u = (pp_base (path_parse P (pathname u)) = ''callback'')"

definition is_fetch_callback :: "platform \<Rightarrow> server \<Rightarrow> UrlWithParsedQuery \<Rightarrow> bool" where
  "is_fetch_callback P S u = (pp_base (path_parse P (pathname u)) = ''fetch-callback'')"

definition is_root :: "platform \<Rightarrow> server \<Rightarrow> UrlWithParsedQuery \<Rightarrow> bool" where
  "is_root P S u = endsWith (pathname u) ''/''"

definition to_manifest :: "platform \<Rightarrow> server \<Rightarrow> UrlWithParsedQuery \<Rightarrow> dispatch" where
  "to_manifest P S u = HandleManifest u"

definition to_icon :: "platform \<Rightarrow> server \<Rightarrow> UrlWithParsedQuery \<Rightarrow> dispatch" where
  "to_icon P S u =
     ServeFile (join P [APP_ROOT S, ''resources'', ''server'', pp_base (path_parse P (pathname u))]) []"

definition to_service_worker :: "platform \<Rightarrow> server \<Rightarrow> UrlWithParsedQuery \<Rightarrow> dispatch" where
  "to_service_worker P S u =
     ServeFile (serviceWorkerPath S) [(''Service-Worker-Allowed'', getPathPrefix P (pathname u))]"

definition to_static :: "platform \<Rightarrow> server \<Rightarrow> UrlWithParsedQuery \<Rightarrow> dispatch" where
  "to_static P S u =
     HandleStatic (u\<lparr>pathname :=
       drop (case indexOf (pathname u) ''/static/'' of None \<Rightarrow> 0 | Some i \<Rightarrow> i) (pathname u)\<rparr>)"

definition to_callback :: "platform \<Rightarrow> server \<Rightarrow> UrlWithParsedQuery \<Rightarrow> dispatch" where
  "to_callback P S u = HandleCallback u"

definition to_fetch_callback :: "platform \<Rightarrow> server \<Rightarrow> UrlWithParsedQuery \<Rightarrow> dispatch" where
  "to_fetch_callback P S u = HandleFetchCallback u"

definition to_root :: "platform \<Rightarrow> server \<Rightarrow> UrlWithParsedQuery \<Rightarrow> dispatch" where
  "to_root P S u = HandleRoot u"

definition not_found :: "UrlWithParsedQuery \<Rightarrow> dispatch" where
  "not_found u = EmitError ([dquote] @ pathname u @ [dquote] @ '' not found.'')"

definition rules :: "rule list" where
  "rules =
     [(is_manifest, to_manifest),
      (is_icon, to_icon),
      (is_service_worker, to_service_worker),
      (is_static, to_static),
      (is_callback, to_callback),
      (is_fetch_callback, to_fetch_callback),
      (is_root, to_root)]"

fun first_match :: "rule list \<Rightarrow> platform \<Rightarrow> server \<Rightarrow> UrlWithParsedQuery \<Rightarrow> dispatch" where
  "first_match [] P S u = not_found u"
| "first_match ((applies, handler) # rs) P S u =
     (if applies P S u then handler P S u else first_match rs P S u)"

text \<open>
  An occurrence of \<open><script>...</script>\<close> in a document: an opening tag at index \<open>i\<close>, a
  closing tag at index \<open>j\<close>, and at least one character between them (the expression
  asks for one with \<open>+\<close>). The first occurrence is the leftmost opening tag that has a
  closing tag, with the nearest such closing tag.
\<close>

definition occurrence :: "string \<Rightarrow> nat \<Rightarrow> nat \<Rightarrow> bool" where
  "occurrence s i j =
     (matches_literal ''<script>'' (drop i s) \<and> i + 8 < j \<and>
      matches_literal ''</script>'' (drop j s))"

definition first_occurrence :: "string \<Rightarrow> nat \<Rightarrow> nat \<Rightarrow> bool" where
  "first_occurrence s i j =
     (occurrence s i j \<and>
      (\<forall>i' j'. occurrence s i' j' \<longrightarrow> i \<le> i') \<and>
      (\<forall>j'. occurrence s i j' \<longrightarrow> j \<le> j'))"

definition content_between :: "string \<Rightarrow> nat \<Rightarrow> nat \<Rightarrow> string" where
  "content_between s i j = take (j - (i + 8)) (drop (i + 8) s)"

section \<open>A sample platform and a sample server\<close>

text \<open>
  The theorems below hold for every platform and every server. The examples run on the
  following instance: the POSIX flavour of the path functions, percent escapes of UTF-8
  octets, and a small file system.
\<close>

subsection \<open>Percent escapes\<close>

definition byte_char :: "nat \<Rightarrow> char" where
  "byte_char n =
     Char (odd n) (odd (n div 2)) (odd (n div 4)) (odd (n div 8))
          (odd (n div 16)) (odd (n div 32)) (odd (n div 64)) (odd (n div 128))"

definition hex_value :: "char \<Rightarrow> nat option" where
  "hex_value c =
     map_of (zip ''0123456789abcdefABCDEF''
       [0, 1, 2, 3, 4, 5, 6, 7, 8, 9, 10, 11, 12, 13, 14, 15, 10, 11, 12, 13, 14, 15]) c"

datatype token = Plain char | Escaped nat

fun escape_tokens :: "string \<Rightarrow> token list option" where
  "escape_tokens [] = Some []"
| "escape_tokens (c # cs) =
     (if c = CHR ''%'' then
        (case cs of
           h1 # h2 # rest \<Rightarrow>
             (case (hex_value h1, hex_value h2) of
                (Some a, Some b) \<Rightarrow> map_option ((#) (Escaped (16 * a + b))) (escape_tokens rest)
              | _ \<Rightarrow> None)
         | _ \<Rightarrow> None)
      else map_option ((#) (Plain c)) (escape_tokens cs))"

text \<open>The number of octets that a leading octet announces, in well-formed UTF-8.\<close>

definition utf8_length :: "nat \<Rightarrow> nat option" where
  "utf8_length b =
     (if 194 \<le> b \<and> b \<le> 223 then Some 2
      else if 224 \<le> b \<and> b \<le> 239 then Some 3
      else if 240 \<le> b \<and> b \<le> 244 then Some 4
      else None)"

definition second_octet_ok :: "nat \<Rightarrow> nat \<Rightarrow> bool" where
  "second_octet_ok lead b =
     (if lead = 224 then 160 \<le> b \<and> b \<le> 191
      else if lead = 237 then 128 \<le> b \<and> b \<le> 159
      else if lead = 240 then 144 \<le> b \<and> b \<le> 191
      else if lead = 244 then 128 \<le> b \<and> b \<le> 143
      else 128 \<le> b \<and> b \<le> 191)"

text \<open>
  \<open>decode_tokens k lead ts\<close>: \<open>k\<close> continuation octets are still due; \<open>lead\<close> is the
  leading octet when the next one is the second of its sequence, and 0 otherwise.
\<close>

fun decode_tokens :: "nat \<Rightarrow> nat \<Rightarrow> token list \<Rightarrow> string option" where
  "decode_tokens k lead [] = (if k = 0 then Some [] else None)"
| "decode_tokens k lead (Plain c # ts) =
     (if k = 0 then map_option ((#) c) (decode_tokens 0 0 ts) else None)"
| "decode_tokens k lead (Escaped b # ts) =
     (if k = 0 then
        (if b < 128 then map_option ((#) (byte_char b)) (decode_tokens 0 0 ts)
         else
           (case utf8_length b of
              None \<Rightarrow> None
            | Some n \<Rightarrow> map_option ((#) (byte_char b)) (decode_tokens (n - 1) b ts)))
      else if (if lead \<noteq> 0 then second_octet_ok lead b else 128 \<le> b \<and> b \<le> 191) then
        map_option ((#) (byte_char b)) (decode_tokens (k - 1) 0 ts)
      else None)"

definition posix_decodeURIComponent :: "string \<Rightarrow> string option" where
  "posix_decodeURIComponent s =
     (case escape_tokens s of None \<Rightarrow> None | Some ts \<Rightarrow> decode_tokens 0 0 ts)"

definition unreserved :: "char \<Rightarrow> bool" where
  "unreserved c =
     (c \<in> set ''ABCDEFGHIJKLMNOPQRSTUVWXYZabcdefghijklmnopqrstuvwxyz0123456789-_.!~*()''
      \<or> c = squote)"

definition percent_encode_char :: "char \<Rightarrow> string" where
  "percent_encode_char c =
     (if unreserved c then [c]
      else [CHR ''%'', ''0123456789ABCDEF'' ! (of_char c div 16),
            ''0123456789ABCDEF'' ! (of_char c mod 16)])"

definition encodeURIComponent :: "string \<Rightarrow> string" where
  "encodeURIComponent s = concat (map percent_encode_char s)"

subsection \<open>Paths\<close>

record parse_state =
  startDot :: "nat option"
  startPart :: nat
  end_index :: "nat option"
  preDotState :: int

text \<open>
  The loop of \<open>path.parse\<close> and \<open>path.extname\<close> over the characters from the last one
  down, each with its index. The variables of the loop are \<open>startDot\<close>, \<open>end\<close>,
  \<open>matchedSlash\<close> and \<open>preDotState\<close>; \<open>startPart\<close> is set where the loop breaks.
\<close>

fun parse_loop ::
  "(nat \<times> char) list \<Rightarrow> nat option \<Rightarrow> nat option \<Rightarrow> bool \<Rightarrow> int \<Rightarrow> parse_state" where
  "parse_loop [] sd e ms pds =
     \<lparr>startDot = sd, startPart = 0, end_index = e, preDotState = pds\<rparr>"
| "parse_loop ((i, code) # earlier) sd e ms pds =
     (if code = CHR ''/'' then
        (if \<not> ms then \<lparr>startDot = sd, startPart = i + 1, end_index = e, preDotState = pds\<rparr>
         else parse_loop earlier sd e ms pds)
      else
        parse_loop earlier
          (if code = CHR ''.'' \<and> sd = None then Some i else sd)
          (if e = None then Some (i + 1) else e)
          (if e = None then False else ms)
          (if code = CHR ''.'' then (if sd = None then pds else 1)
           else if sd \<noteq> None then - 1 else pds))"

definition slice :: "string \<Rightarrow> nat \<Rightarrow> nat \<Rightarrow> string" where
  "slice s a b = take (b - a) (drop a s)"

definition no_extension :: "parse_state \<Rightarrow> nat \<Rightarrow> bool" where
  "no_extension st e =
     (startDot st = None \<or> preDotState st = 0 \<or>
      (preDotState st = 1 \<and> startDot st = Some (e - 1) \<and> startDot st = Some (startPart st + 1)))"

definition posix_parse :: "string \<Rightarrow> ParsedPath" where
  "posix_parse path =
     (if path = [] then \<lparr>pp_dir = [], pp_base = [], pp_ext = []\<rparr>
      else
        (let isAbsolute = (hd path = CHR ''/'');
             start = (if isAbsolute then 1 else 0);
             st = parse_loop (rev (drop start (enumerate 0 path))) None None True 0;
             start1 = (if startPart st = 0 \<and> isAbsolute then 1 else startPart st);
             dir = (if 0 < startPart st then slice path 0 (startPart st - 1)
                    else if isAbsolute then ''/'' else [])
         in case end_index st of
              None \<Rightarrow> \<lparr>pp_dir = dir, pp_base = [], pp_ext = []\<rparr>
            | Some e \<Rightarrow>
                if no_extension st e then
                  \<lparr>pp_dir = dir, pp_base = slice path start1 e, pp_ext = []\<rparr>
                else
                  \<lparr>pp_dir = dir, pp_base = slice path start1 e,
                   pp_ext = slice path (case startDot st of None \<Rightarrow> 0 | Some d \<Rightarrow> d) e\<rparr>))"

definition posix_extname :: "string \<Rightarrow> string" where
  "posix_extname path =
     (let st = parse_loop (rev (enumerate 0 path)) None None True 0 in
      case end_index st of
        None \<Rightarrow> []
      | Some e \<Rightarrow>
          if no_extension st e then []
          else slice path (case startDot st of None \<Rightarrow> 0 | Some d \<Rightarrow> d) e)"

fun split_on :: "char \<Rightarrow> string \<Rightarrow> string list" where
  "split_on sep [] = [[]]"
| "split_on sep (c # cs) =
     (if c = sep then [] # split_on sep cs
      else (case split_on sep cs of [] \<Rightarrow> [[c]] | seg # segs \<Rightarrow> (c # seg) # segs))"

text \<open>
  \<open>normalizeString\<close> on the segments of a path; \<open>res\<close> holds the segments kept so far,
  the last one first.
\<close>

fun normalize_segments :: "bool \<Rightarrow> string list \<Rightarrow> string list \<Rightarrow> string list" where
  "normalize_segments allowAboveRoot [] res = rev res"
| "normalize_segments allowAboveRoot (seg # segs) res =
     (if seg = [] \<or> seg = ''.'' then normalize_segments allowAboveRoot segs res
      else if seg = ''..'' then
        (case res of
           [] \<Rightarrow> normalize_segments allowAboveRoot segs (if allowAboveRoot then [''..''] else [])
         | r # rs \<Rightarrow>
             if r \<noteq> ''..'' then normalize_segments allowAboveRoot segs rs
             else normalize_segments allowAboveRoot segs
                    (if allowAboveRoot then ''..'' # res else res))
      else normalize_segments allowAboveRoot segs (seg # res))"

definition posix_normalize :: "string \<Rightarrow> string" where
  "posix_normalize path =
     (if path = [] then ''.''
      else
        (let isAbsolute = (hd path = CHR ''/'');
             trailingSeparator = (last path = CHR ''/'');
             p = join_with ''/'' (normalize_segments (\<not> isAbsolute) (split_on CHR ''/'' path) [])
         in if p = [] then (if isAbsolute then ''/'' else if trailingSeparator then ''./'' else ''.'')
            else (if isAbsolute then ''/'' else []) @ p @ (if trailingSeparator then ''/'' else [])))"

definition posix_join :: "string list \<Rightarrow> string" where
  "posix_join args =
     (let parts = filter (\<lambda>arg. arg \<noteq> []) args in
      if parts = [] then ''.'' else posix_normalize (join_with ''/'' parts))"

text \<open>
  The path prefix, as the spec words it: the part of the path before its last \<open>/\<close>, or
  \<open>/\<close> when that part is empty.
\<close>

definition sample_getPathPrefix :: "string \<Rightarrow> string" where
  "sample_getPathPrefix p =
     (let d = join_with ''/'' (butlast (split_on CHR ''/'' p)) in if d = [] then ''/'' else d)"

definition sample_getMediaMime :: "string \<Rightarrow> string option" where
  "sample_getMediaMime p =
     map_of [(''.png'', ''image/png''), (''.ico'', ''image/x-icon''), (''.gif'', ''image/gif''),
             (''.woff'', ''application/font-woff'')] (posix_extname p)"

subsection \<open>Containment, blank strings\<close>

definition toLowerCase_char :: "char \<Rightarrow> char" where
  "toLowerCase_char c =
     (case map_of (zip ''ABCDEFGHIJKLMNOPQRSTUVWXYZ'' ''abcdefghijklmnopqrstuvwxyz'') c of
        Some l \<Rightarrow> l
      | None \<Rightarrow> c)"

text \<open>
  Containment of a path in a directory, as the spec words it: the path equals the
  directory, or continues it after a separator; on request the case of letters is ignored.
\<close>

definition sample_isEqualOrParent :: "string \<Rightarrow> string \<Rightarrow> bool \<Rightarrow> bool" where
  "sample_isEqualOrParent base parentCandidate ignoreCase =
     (let b = (if ignoreCase then map toLowerCase_char base else base);
          p = (if ignoreCase then map toLowerCase_char parentCandidate else parentCandidate);
          p1 = (if p \<noteq> [] \<and> last p = CHR ''/'' then p else p @ ''/'')
      in b = p \<or> (b \<noteq> [] \<and> p \<noteq> [] \<and> take (length p1) b = p1))"

definition sample_isFalsyOrWhitespace :: "string option \<Rightarrow> bool" where
  "sample_isFalsyOrWhitespace v =
     (case v of
        None \<Rightarrow> True
      | Some s \<Rightarrow> list_all (\<lambda>c. c \<in> set [CHR '' '', CHR 0x09, CHR 0x0A, CHR 0x0B, CHR 0x0C, CHR 0x0D]) s)"

subsection \<open>Headers, addresses and cookies\<close>

text \<open>A \<open>Forwarded\<close> header of the plain form \<open>proto=https;host=example.com\<close>.\<close>

definition pair_of :: "string \<Rightarrow> (string \<times> string) option" where
  "pair_of kv =
     (case indexOf kv ''='' of
        None \<Rightarrow> None
      | Some i \<Rightarrow> Some (map toLowerCase_char (take i kv), drop (i + 1) kv))"

definition sample_parseForwardHeader :: "string \<Rightarrow> Forwarded list option" where
  "sample_parseForwardHeader h =
     those (map (\<lambda>element.
        map_option (\<lambda>kvs. \<lparr>fwd_proto = map_of kvs ''proto'', fwd_host = map_of kvs ''host''\<rparr>)
          (those (map pair_of (split_on CHR '';'' element))))
       (split_on CHR '','' h))"

text \<open>
  An address of the form \<open>scheme://host\<close> or \<open>scheme://host:port\<close>; the port of the
  scheme is left out, as the \<open>URL\<close> class leaves it out.
\<close>

definition sample_new_URL :: "string \<Rightarrow> URL option" where
  "sample_new_URL href =
     (case indexOf href ''://'' of
        None \<Rightarrow> None
      | Some i \<Rightarrow>
          (let scheme = map toLowerCase_char (take i href);
               authority = map toLowerCase_char (drop (i + 3) href);
               hostname = (case indexOf authority '':'' of None \<Rightarrow> authority | Some k \<Rightarrow> take k authority);
               port = (case indexOf authority '':'' of None \<Rightarrow> [] | Some k \<Rightarrow> drop (k + 1) authority)
           in if scheme = [] \<or> hostname = [] then None
              else Some \<lparr>url_protocol = scheme @ '':'', url_hostname = hostname,
                     url_port = (if (scheme = ''http'' \<and> port = ''80'') \<or>
                                    (scheme = ''https'' \<and> port = ''443'') then [] else port)\<rparr>))"

definition sample_cookie_serialize :: "string \<Rightarrow> string \<Rightarrow> string \<Rightarrow> nat \<Rightarrow> string" where
  "sample_cookie_serialize name val sameSite maxAge =
     name @ ''='' @ encodeURIComponent val @ ''; Max-Age='' @ show_nat maxAge @
     ''; SameSite='' @
     (if sameSite = ''strict'' then ''Strict''
      else if sameSite = ''lax'' then ''Lax''
      else if sameSite = ''none'' then ''None'' else sameSite)"

definition stringify_entry :: "string \<times> query_value \<Rightarrow> string list" where
  "stringify_entry kv =
     (case kv of
        (k, QString v) \<Rightarrow> [encodeURIComponent k @ ''='' @ encodeURIComponent v]
      | (k, QArray vs) \<Rightarrow> map (\<lambda>v. encodeURIComponent k @ ''='' @ encodeURIComponent v) vs)"

definition sample_url_format :: "string \<Rightarrow> ParsedUrlQuery \<Rightarrow> string" where
  "sample_url_format path q =
     (let qs = join_with ''&'' (concat (map stringify_entry q)) in
      path @ (if qs = [] then [] else ''?'' @ qs))"

text \<open>
  The digest is not computed in the examples: the sample platform writes the digest of
  \<open>s\<close> as the text \<open>s\<close> between \<open>{SHA-256:\<close> and \<open>}\<close>.
\<close>

definition sample_sha256_base64 :: "string \<Rightarrow> string" where
  "sample_sha256_base64 s = ''{SHA-256:'' @ s @ ''}''"

definition posix_platform :: platform where
  "posix_platform =
     \<lparr>decodeURIComponent = posix_decodeURIComponent,
      path_parse = posix_parse,
      extname = posix_extname,
      normalize = posix_normalize,
      join = posix_join,
      getPathPrefix = sample_getPathPrefix,
      getMediaMime = sample_getMediaMime,
      isEqualOrParent = sample_isEqualOrParent,
      isFalsyOrWhitespace = sample_isFalsyOrWhitespace,
      parseForwardHeader = sample_parseForwardHeader,
      new_URL = sample_new_URL,
      cookie_serialize = sample_cookie_serialize,
      url_format = sample_url_format,
      sha256_base64 = sample_sha256_base64\<rparr>"

subsection \<open>A server\<close>

definition sample_files :: "(string \<times> Stats) list" where
  "sample_files =
     [(''/app/out/vs/code/browser/workbench/callback.html'',
       \<lparr>stat_ino = 42, stat_size = 1024, stat_mtime = 1600000000000\<rparr>),
      (''/app/out/vs/loader.js'',
       \<lparr>stat_ino = 7, stat_size = 30, stat_mtime = 1600000000123\<rparr>)]"

definition sample_server :: server where
  "sample_server =
     \<lparr>APP_ROOT = ''/app/out'',
      isLinux = True,
      serviceWorkerFileName = ''service-worker.js'',
      serviceWorkerPath = ''/app/out/vs/workbench/contrib/resources/browser/resourceServiceWorkerMain.js'',
      urlProtocol = ''code-oss'',
      applicationName = ''code-server'',
      commit = None,
      version = ''1.56.1'',
      callback_html = ''/app/out/vs/code/browser/workbench/callback.html'',
      workbench_error_html = ''/app/out/vs/code/browser/workbench/workbench-error.html'',
      fetchClientTheme = Some \<lparr>backgroundColor = ''#1e1e1e'', foregroundColor = ''#d4d4d4''\<rparr>,
      fs_stat = (\<lambda>p. case map_of sample_files p of None \<Rightarrow> Inl ENOENT | Some st \<Rightarrow> Inr st),
      fs_readFile = (\<lambda>p. if p = ''/app/out/vs/code/browser/workbench/workbench-error.html''
                          then Some ''<h1>{{ERROR_CODE}}</h1>'' else None)\<rparr>"

text \<open>
  A request as it arrives, turned into the \<open>IncomingMessage\<close> that the handlers read:
  the HTTP parser lower-cases the header names.
\<close>

definition incoming :: "(string \<times> string) list \<Rightarrow> IncomingMessage" where
  "incoming raw = \<lparr>req_headers = map_of (map (\<lambda>(name, v). (map toLowerCase_char name, v)) raw)\<rparr>"

subsection \<open>Sample requests\<close>

definition register_abc :: UrlWithParsedQuery where
  "register_abc =
     \<lparr>pathname = ''/callback'',
      query = [(''vscode-requestId'', QString ''abc''), (''vscode-scheme'', QString ''vscode''),
               (''vscode-path'', QString ''/open'')]\<rparr>"

definition fetch_abc :: UrlWithParsedQuery where
  "fetch_abc = \<lparr>pathname = ''/fetch-callback'', query = [(''vscode-requestId'', QString ''abc'')]\<rparr>"

definition register_escaped :: UrlWithParsedQuery where
  "register_escaped =
     \<lparr>pathname = ''/callback'',
      query = [(''vscode-requestId'', QString ''a%20b''), (''vscode-scheme'', QString ''vscode''),
               (''vscode-path'', QString ''/open'')]\<rparr>"

definition fetch_escaped :: UrlWithParsedQuery where
  "fetch_escaped =
     \<lparr>pathname = ''/fetch-callback'', query = [(''vscode-requestId'', QString ''a%20b'')]\<rparr>"


definition register_without_scheme :: UrlWithParsedQuery where
  "register_without_scheme =
     \<lparr>pathname = ''/callback'',
      query = [(''vscode-requestId'', QString ''abc''), (''vscode-path'', QString ''/open'')]\<rparr>"

definition register_with_query :: UrlWithParsedQuery where
  "register_with_query =
     \<lparr>pathname = ''/callback'',
      query = [(''vscode-requestId'', QString ''abc''), (''vscode-query'', QString ''a=1''),
               (''foo'', QString ''bar'')]\<rparr>"

definition loader_js_etag :: string where
  "loader_js_etag = ''W/'' @ [dquote] @ ''7-30-1600000000123'' @ [dquote]"

definition static_escape :: UrlWithParsedQuery where
  "static_escape = \<lparr>pathname = ''/static/../../etc/passwd.txt'', query = []\<rparr>"

definition nested_manifest :: UrlWithParsedQuery where
  "nested_manifest = \<lparr>pathname = ''/foo/static/out/manifest.json'', query = []\<rparr>"

definition static_loader :: UrlWithParsedQuery where
  "static_loader = \<lparr>pathname = ''/static/loader.js'', query = []\<rparr>"

definition request_with_listener :: RequestEmitter where
  "request_with_listener = \<lparr>req_headers = Map.empty, error_listeners = ListenersReturn\<rparr>"

definition request_without_listener :: RequestEmitter where
  "request_without_listener = \<lparr>req_headers = Map.empty, error_listeners = NoListener\<rparr>"

definition unknown_path :: UrlWithParsedQuery where
  "unknown_path = \<lparr>pathname = ''/nothing'', query = []\<rparr>"

definition root_with_token :: UrlWithParsedQuery where
  "root_with_token =
     \<lparr>pathname = ''/'', query = [(''tkn'', QString ''SECRET''), (''foo'', QString ''1'')]\<rparr>"

definition root_with_two_tokens :: UrlWithParsedQuery where
  "root_with_two_tokens = \<lparr>pathname = ''/'', query = [(''tkn'', QArray [''a'', ''b''])]\<rparr>"

definition root_plain :: UrlWithParsedQuery where
  "root_plain = \<lparr>pathname = ''/'', query = []\<rparr>"

definition behind_proxy :: IncomingMessage where
  "behind_proxy = incoming [(''Host'', ''example.com''), (''X-Forwarded-Proto'', ''https'')]"

definition two_scripts :: string where
  "two_scripts = ''<script>a</script><p><SCRIPT>b'' @ [CHR 0x0D, CHR 0x0A] @ ''</Script>''"

definition empty_script :: string where
  "empty_script = ''<script></script>''"

definition empty_script_then_script :: string where
  "empty_script_then_script = ''<script></script><script>a</script>''"

section \<open>The callback broker: registration and consumption\<close>

lemma those_wellKnown:
  "those (map f wellKnownKeys) = Some [a, b, c, d, e, g] \<longleftrightarrow>
   f ''vscode-requestId'' = Some a \<and> f ''vscode-scheme'' = Some b \<and>
   f ''vscode-authority'' = Some c \<and> f ''vscode-path'' = Some d \<and>
   f ''vscode-query'' = Some e \<and> f ''vscode-fragment'' = Some g"
  by (auto simp: wellKnownKeys_def split: option.splits)

lemma handleCallback_registers:
  assumes "those (map (decodeQueryValue P parsedUrl) wellKnownKeys) =
      Some [Some requestId, vscodeScheme, vscodeAuthority, vscodePath, vscodeQuery, vscodeFragment]"
    and "requestId \<noteq> []"
  shows "handleCallback P S req parsedUrl m =
     (m(requestId \<mapsto>
        \<lparr>uri_scheme = or_default vscodeScheme (urlProtocol S),
         uri_authority = vscodeAuthority,
         uri_path = vscodePath,
         uri_query = mergeQuery (getFirstQueryValues parsedUrl (Some wellKnownKeys)) vscodeQuery 0,
         uri_fragment = vscodeFragment\<rparr>),
      serveFile P S req (callback_html S) [(''Content-Type'', ''text/html'')])"
  using assms
  by (simp add: handleCallback_def truthy_def or_default_def URI_from_toJSON_def Let_def)

lemma handleFetchCallback_found:
  assumes "getFirstQueryValue fetchUrl ''vscode-requestId'' = Some requestId"
    and "requestId \<noteq> []"
  shows "handleFetchCallback fetchUrl m =
     ((case m requestId of None \<Rightarrow> m | Some u \<Rightarrow> m(requestId := None)),
      \<lparr>fs_ops = [],
       result = Some \<lparr>statusCode = 200, statusMessage = None,
         headers = [(''Content-Type'', ''text/json'')], body = JsonUri (m requestId)\<rparr>\<rparr>)"
  using assms
  by (simp add: handleFetchCallback_def truthy_def or_default_def Let_def split: option.splits)

lemma decoded_register_abc:
  "those (map (decodeQueryValue posix_platform register_abc) wellKnownKeys) =
     Some [Some ''abc'', Some ''vscode'', None, Some ''/open'', None, None]"
  by (simp add: wellKnownKeys_def decodeQueryValue_def getFirstQueryValue_def register_abc_def
      truthy_def or_default_def posix_platform_def posix_decodeURIComponent_def)

lemma fetch_abc_id: "getFirstQueryValue fetch_abc ''vscode-requestId'' = Some ''abc''"
  by (simp add: getFirstQueryValue_def fetch_abc_def)

text \<open>
  The round trip of an entry, when the request id that the registration decodes is the
  request id that the fetch reads: the registration stores the composed URI components
  under it, the first fetch answers 200 with these components and deletes the entry, and the
  second fetch answers with the absent value.
\<close>

lemma round_trip_of_equal_keys:
  assumes decoded: "those (map (decodeQueryValue P parsedUrl) wellKnownKeys) =
      Some [Some requestId, vscodeScheme, vscodeAuthority, vscodePath, vscodeQuery, vscodeFragment]"
    and nonempty: "requestId \<noteq> []"
    and fetch: "getFirstQueryValue fetchUrl ''vscode-requestId'' = Some requestId"
    and register: "handleCallback P S req parsedUrl m0 = (m1, out1)"
    and consume1: "handleFetchCallback fetchUrl m1 = (m2, out2)"
    and consume2: "handleFetchCallback fetchUrl m2 = (m3, out3)"
  shows "m1 requestId =
           Some \<lparr>uri_scheme = or_default vscodeScheme (urlProtocol S),
                 uri_authority = vscodeAuthority,
                 uri_path = vscodePath,
                 uri_query =
                   mergeQuery (getFirstQueryValues parsedUrl (Some wellKnownKeys)) vscodeQuery 0,
                 uri_fragment = vscodeFragment\<rparr> \<and>
         result out2 = Some \<lparr>statusCode = 200, statusMessage = None,
           headers = [(''Content-Type'', ''text/json'')], body = JsonUri (m1 requestId)\<rparr> \<and>
         m2 requestId = None \<and>
         result out3 = Some \<lparr>statusCode = 200, statusMessage = None,
           headers = [(''Content-Type'', ''text/json'')], body = JsonUri None\<rparr>"
proof -
  have m1: "m1 = m0(requestId \<mapsto>
        \<lparr>uri_scheme = or_default vscodeScheme (urlProtocol S),
         uri_authority = vscodeAuthority,
         uri_path = vscodePath,
         uri_query = mergeQuery (getFirstQueryValues parsedUrl (Some wellKnownKeys)) vscodeQuery 0,
         uri_fragment = vscodeFragment\<rparr>)"
    using register handleCallback_registers [OF decoded nonempty, of S req m0] by simp
  have c1: "m2 = m1(requestId := None)"
    "result out2 = Some \<lparr>statusCode = 200, statusMessage = None,
       headers = [(''Content-Type'', ''text/json'')], body = JsonUri (m1 requestId)\<rparr>"
    using consume1 handleFetchCallback_found [OF fetch nonempty, of m1] m1 by auto
  have c2: "result out3 = Some \<lparr>statusCode = 200, statusMessage = None,
       headers = [(''Content-Type'', ''text/json'')], body = JsonUri (m2 requestId)\<rparr>"
    using consume2 handleFetchCallback_found [OF fetch nonempty, of m2] by auto
  show ?thesis using m1 c1 c2 by simp
qed

lemma round_trip_abc:
  "result (snd (handleFetchCallback fetch_abc
       (fst (handleCallback posix_platform sample_server (incoming []) register_abc Map.empty)))) =
     Some \<lparr>statusCode = 200, statusMessage = None, headers = [(''Content-Type'', ''text/json'')],
       body = JsonUri (Some \<lparr>uri_scheme = ''vscode'', uri_authority = None,
         uri_path = Some ''/open'', uri_query = None, uri_fragment = None\<rparr>)\<rparr> \<and>
   result (snd (handleFetchCallback fetch_abc (fst (handleFetchCallback fetch_abc
       (fst (handleCallback posix_platform sample_server (incoming []) register_abc Map.empty)))))) =
     Some \<lparr>statusCode = 200, statusMessage = None, headers = [(''Content-Type'', ''text/json'')],
       body = JsonUri None\<rparr>"
proof -
  have q: "getFirstQueryValues register_abc (Some wellKnownKeys) = []"
    by (simp add: getFirstQueryValues_def register_abc_def wellKnownKeys_def)
  show ?thesis
    using round_trip_of_equal_keys [OF decoded_register_abc _ fetch_abc_id
        surjective_pairing surjective_pairing surjective_pairing,
        where S = sample_server and req = "incoming []" and ?m0.0 = Map.empty]
    by (simp add: q or_default_def)
qed

lemma decoded_register_escaped:
  "those (map (decodeQueryValue posix_platform register_escaped) wellKnownKeys) =
     Some [Some ''a b'', Some ''vscode'', None, Some ''/open'', None, None]"
  by (simp add: wellKnownKeys_def decodeQueryValue_def getFirstQueryValue_def register_escaped_def
      truthy_def or_default_def posix_platform_def posix_decodeURIComponent_def hex_value_def
      byte_char_def)

lemma fetch_escaped_id: "getFirstQueryValue fetch_escaped ''vscode-requestId'' = Some ''a%20b''"
  by (simp add: getFirstQueryValue_def fetch_escaped_def)

text \<open>
  Claim C1, evaluated where the code departs from it: a registration and a fetch that give
  the same request id, \<open>a%20b\<close>, in the parsed query (\<open>?vscode-requestId=a%2520b\<close> on the
  wire). The registration passes the id through \<open>decodeURIComponent\<close> and stores the entry
  under \<open>a b\<close>; the fetch looks the id up as it is, finds nothing under \<open>a%20b\<close>, answers
  with the absent value and leaves the entry in the mapping.
\<close>

theorem escaped_request_id_not_consumed:
  "fst (handleCallback posix_platform sample_server (incoming []) register_escaped Map.empty) =
     [''a b'' \<mapsto> \<lparr>uri_scheme = ''vscode'', uri_authority = None, uri_path = Some ''/open'',
        uri_query = None, uri_fragment = None\<rparr>] \<and>
   handleFetchCallback fetch_escaped
     (fst (handleCallback posix_platform sample_server (incoming []) register_escaped Map.empty)) =
     (fst (handleCallback posix_platform sample_server (incoming []) register_escaped Map.empty),
      \<lparr>fs_ops = [],
       result = Some \<lparr>statusCode = 200, statusMessage = None,
         headers = [(''Content-Type'', ''text/json'')], body = JsonUri None\<rparr>\<rparr>)"
proof -
  have q: "getFirstQueryValues register_escaped (Some wellKnownKeys) = []"
    by (simp add: getFirstQueryValues_def register_escaped_def wellKnownKeys_def)
  have r: "fst (handleCallback posix_platform sample_server (incoming []) register_escaped
        Map.empty) =
      [''a b'' \<mapsto> \<lparr>uri_scheme = ''vscode'', uri_authority = None, uri_path = Some ''/open'',
        uri_query = None, uri_fragment = None\<rparr>]"
    by (simp add: handleCallback_registers [OF decoded_register_escaped] q or_default_def)
  show ?thesis
    unfolding r by (simp add: handleFetchCallback_found [OF fetch_escaped_id])
qed




text \<open>
  Claim C10. When the \<open>vscode-scheme\<close> parameter of a callback registration with a
  non-empty request id is absent or empty, the scheme of the stored URI is the
  \<open>urlProtocol\<close> of the product.
\<close>

theorem scheme_defaults_to_urlProtocol:
  assumes decoded: "those (map (decodeQueryValue P parsedUrl) wellKnownKeys) =
      Some [Some requestId, vscodeScheme, vscodeAuthority, vscodePath, vscodeQuery, vscodeFragment]"
    and nonempty: "requestId \<noteq> []"
    and no_scheme: "\<not> truthy (getFirstQueryValue parsedUrl ''vscode-scheme'')"
    and register: "handleCallback P S req parsedUrl m0 = (m1, out1)"
  shows "map_option uri_scheme (m1 requestId) = Some (urlProtocol S)"
proof -
  have "decodeQueryValue P parsedUrl ''vscode-scheme'' = Some vscodeScheme"
    using decoded by (simp add: those_wellKnown)
  then have "vscodeScheme = getFirstQueryValue parsedUrl ''vscode-scheme''"
    using no_scheme
    by (auto simp: decodeQueryValue_def truthy_def split: option.splits if_splits)
  then have "or_default vscodeScheme (urlProtocol S) = urlProtocol S"
    using no_scheme by (auto simp: truthy_def or_default_def split: option.splits)
  then show ?thesis
    using register handleCallback_registers [OF decoded nonempty, of S req m0] by auto
qed

lemma decoded_register_without_scheme:
  "those (map (decodeQueryValue posix_platform register_without_scheme) wellKnownKeys) =
     Some [Some ''abc'', None, None, Some ''/open'', None, None]"
  by (simp add: wellKnownKeys_def decodeQueryValue_def getFirstQueryValue_def
      register_without_scheme_def truthy_def or_default_def posix_platform_def
      posix_decodeURIComponent_def)

theorem scheme_defaults_to_urlProtocol_witness:
  "map_option uri_scheme
     (fst (handleCallback posix_platform sample_server (incoming []) register_without_scheme
        Map.empty) ''abc'') = Some ''code-oss''"
proof -
  have n: "\<not> truthy (getFirstQueryValue register_without_scheme ''vscode-scheme'')"
    by (simp add: getFirstQueryValue_def register_without_scheme_def truthy_def)
  show ?thesis
    using scheme_defaults_to_urlProtocol [OF decoded_register_without_scheme _ n
        surjective_pairing,
        where S = sample_server and req = "incoming []" and ?m0.0 = Map.empty]
    by (simp add: sample_server_def)
qed

lemma decoded_register_with_query:
  "those (map (decodeQueryValue posix_platform register_with_query) wellKnownKeys) =
     Some [Some ''abc'', None, None, None, Some ''a=1'', None]"
  by (simp add: wellKnownKeys_def decodeQueryValue_def getFirstQueryValue_def
      register_with_query_def truthy_def or_default_def posix_platform_def
      posix_decodeURIComponent_def)

text \<open>
  Claim C3, evaluated where the code departs from it: with \<open>vscode-query=a=1\<close> and the
  additional parameter \<open>foo=bar\<close>, the stored query is \<open>a=1foo=bar\<close>. The prefix of the
  first merged parameter is empty whenever \<open>index\<close> is 0, also when \<open>vscode-query\<close>
  already holds text, so no \<open>&\<close> separates the two.
\<close>

theorem merged_query_lacks_separator:
  "map_option uri_query
     (fst (handleCallback posix_platform sample_server (incoming []) register_with_query
        Map.empty) ''abc'') = Some (Some ''a=1foo=bar'')"
proof -
  have q: "getFirstQueryValues register_with_query (Some wellKnownKeys) = [(''foo'', ''bar'')]"
    by (simp add: getFirstQueryValues_def getFirstQueryValue_def register_with_query_def
        wellKnownKeys_def)
  show ?thesis
    by (simp add: handleCallback_registers [OF decoded_register_with_query] q truthy_def
        or_default_def)
qed

lemma mergeQuery_first:
  "mergeQuery ((key, v) # rest) (Some (c # cs)) 0 =
   mergeQuery rest (Some ((c # cs) @ key @ ''='' @ v)) 1"
  by (simp add: truthy_def or_default_def)

section \<open>Serving files\<close>

lemma map_of_textMimeType_nonempty: "map_of textMimeType ext = Some t \<Longrightarrow> t \<noteq> []"
  by (auto simp: textMimeType_def split: if_splits)

lemma content_type_of_cases:
  "content_type_of P filePath =
     (case map_of textMimeType (extname P filePath) of
        Some t \<Rightarrow> t
      | None \<Rightarrow>
          (case getMediaMime P filePath of
             None \<Rightarrow> ''text/plain''
           | Some t \<Rightarrow> if t = [] then ''text/plain'' else t))"
  by (auto simp: content_type_of_def or_default_def or_else_def truthy_def
      dest: map_of_textMimeType_nonempty split: option.splits)

text \<open>
  Claim C7. When the file exists, the tag is the weak validator \<open>W/"ino-size-mtime"\<close> built
  from the inode, the size and the modification time in milliseconds. If the
  \<open>if-none-match\<close> header of the request equals the tag, the response is 304 with no body
  and no header; otherwise it is 200, streams the file, and carries the tag in the header
  \<open>Etag\<close> and a \<open>Content-Type\<close> taken from the extension table, else from the media-type
  lookup, else \<open>text/plain\<close>.
\<close>

theorem serveFile_conditional_get:
  assumes "fs_stat S filePath = Inr stat"
  shows "etag_of stat =
           ''W/'' @ [dquote] @ Number_toString (int (stat_ino stat)) @ ''-'' @
           Number_toString (int (stat_size stat)) @ ''-'' @
           Number_toString (stat_mtime stat) @ [dquote] \<and>
         (req_headers req ''if-none-match'' = Some (etag_of stat) \<longrightarrow>
            result (serveFile P S req filePath responseHeaders) =
              Some \<lparr>statusCode = 304, statusMessage = None, headers = [], body = NoBody\<rparr>) \<and>
         (req_headers req ''if-none-match'' \<noteq> Some (etag_of stat) \<longrightarrow>
            (\<exists>hs. result (serveFile P S req filePath responseHeaders) =
                Some \<lparr>statusCode = 200, statusMessage = None, headers = hs,
                  body = FileStream filePath\<rparr> \<and>
              hs = AList.update ''Etag'' (etag_of stat)
                     (AList.update ''Content-Type'' (content_type_of P filePath) responseHeaders) \<and>
              map_of hs ''Etag'' = Some (etag_of stat) \<and>
              map_of hs ''Content-Type'' =
                Some (case map_of textMimeType (extname P filePath) of
                        Some t \<Rightarrow> t
                      | None \<Rightarrow>
                          (case getMediaMime P filePath of
                             None \<Rightarrow> ''text/plain''
                           | Some t \<Rightarrow> if t = [] then ''text/plain'' else t))))"
proof (intro conjI impI)
  show "etag_of stat =
           ''W/'' @ [dquote] @ Number_toString (int (stat_ino stat)) @ ''-'' @
           Number_toString (int (stat_size stat)) @ ''-'' @
           Number_toString (stat_mtime stat) @ [dquote]"
    by (simp add: etag_of_def)
next
  assume "req_headers req ''if-none-match'' = Some (etag_of stat)"
  then show "result (serveFile P S req filePath responseHeaders) =
      Some \<lparr>statusCode = 304, statusMessage = None, headers = [], body = NoBody\<rparr>"
    using assms by (simp add: serveFile_def)
next
  assume "req_headers req ''if-none-match'' \<noteq> Some (etag_of stat)"
  then have "result (serveFile P S req filePath responseHeaders) =
      Some \<lparr>statusCode = 200, statusMessage = None,
        headers = AList.update ''Etag'' (etag_of stat)
                     (AList.update ''Content-Type'' (content_type_of P filePath) responseHeaders),
        body = FileStream filePath\<rparr>"
    using assms by (simp add: serveFile_def Let_def)
  then show "\<exists>hs. result (serveFile P S req filePath responseHeaders) =
                Some \<lparr>statusCode = 200, statusMessage = None, headers = hs,
                  body = FileStream filePath\<rparr> \<and>
              hs = AList.update ''Etag'' (etag_of stat)
                     (AList.update ''Content-Type'' (content_type_of P filePath) responseHeaders) \<and>
              map_of hs ''Etag'' = Some (etag_of stat) \<and>
              map_of hs ''Content-Type'' =
                Some (case map_of textMimeType (extname P filePath) of
                        Some t \<Rightarrow> t
                      | None \<Rightarrow>
                          (case getMediaMime P filePath of
                             None \<Rightarrow> ''text/plain''
                           | Some t \<Rightarrow> if t = [] then ''text/plain'' else t))"
    by (simp add: update_conv' content_type_of_cases)
qed

lemma stat_loader_js:
  "fs_stat sample_server ''/app/out/vs/loader.js'' =
     Inr \<lparr>stat_ino = 7, stat_size = 30, stat_mtime = 1600000000123\<rparr>"
  by (simp add: sample_server_def sample_files_def)

lemma etag_loader_js:
  "etag_of \<lparr>stat_ino = 7, stat_size = 30, stat_mtime = 1600000000123\<rparr> = loader_js_etag"
  by (simp add: etag_of_def Number_toString_def show_nat.simps loader_js_etag_def)

theorem serveFile_conditional_get_witness:
  "result (serveFile posix_platform sample_server (incoming [(''If-None-Match'', loader_js_etag)])
       ''/app/out/vs/loader.js'' []) =
     Some \<lparr>statusCode = 304, statusMessage = None, headers = [], body = NoBody\<rparr> \<and>
   result (serveFile posix_platform sample_server (incoming []) ''/app/out/vs/loader.js'' []) =
     Some \<lparr>statusCode = 200, statusMessage = None,
       headers = [(''Content-Type'', ''text/javascript''), (''Etag'', loader_js_etag)],
       body = FileStream ''/app/out/vs/loader.js''\<rparr>"
proof -
  have h: "req_headers (incoming [(''If-None-Match'', loader_js_etag)]) ''if-none-match'' =
      Some (etag_of \<lparr>stat_ino = 7, stat_size = 30, stat_mtime = 1600000000123\<rparr>)"
    by (simp add: incoming_def toLowerCase_char_def etag_loader_js)
  have n: "req_headers (incoming []) ''if-none-match'' \<noteq>
      Some (etag_of \<lparr>stat_ino = 7, stat_size = 30, stat_mtime = 1600000000123\<rparr>)"
    by (simp add: incoming_def)
  have e: "extname posix_platform ''/app/out/vs/loader.js'' = ''.js''"
    by (simp add: posix_platform_def posix_extname_def no_extension_def slice_def Let_def)
  have c: "content_type_of posix_platform ''/app/out/vs/loader.js'' = ''text/javascript''"
    by (simp add: content_type_of_cases e textMimeType_def)
  have not_modified: "result (serveFile posix_platform sample_server
        (incoming [(''If-None-Match'', loader_js_etag)]) ''/app/out/vs/loader.js'' []) =
      Some \<lparr>statusCode = 304, statusMessage = None, headers = [], body = NoBody\<rparr>"
    using serveFile_conditional_get [OF stat_loader_js,
        where req = "incoming [(''If-None-Match'', loader_js_etag)]", THEN conjunct2,
        THEN conjunct1] h
    by simp
  have fresh: "result (serveFile posix_platform sample_server (incoming [])
        ''/app/out/vs/loader.js'' []) =
      Some \<lparr>statusCode = 200, statusMessage = None,
       headers = [(''Content-Type'', ''text/javascript''), (''Etag'', loader_js_etag)],
       body = FileStream ''/app/out/vs/loader.js''\<rparr>"
    using serveFile_conditional_get [OF stat_loader_js,
        where req = "incoming []" and P = posix_platform and responseHeaders = "[]",
        THEN conjunct2, THEN conjunct2] n
    by (auto simp: c etag_loader_js)
  show ?thesis using not_modified fresh by simp
qed

section \<open>Static requests and dispatch\<close>

lemma serveError_no_stat:
  "Stat p \<notin> set (fs_ops (serveError S code message parsedUrl)) \<and>
   CreateReadStream p \<notin> set (fs_ops (serveError S code message parsedUrl))"
  by (simp add: serveError_def Let_def split: option.splits)

lemma serveError_reads_template:
  "ReadFile p \<in> set (fs_ops (serveError S code message parsedUrl)) \<Longrightarrow>
   p = workbench_error_html S"
  by (auto simp: serveError_def Let_def split: option.splits if_splits)

lemma serveError_status:
  "result (serveError S code message parsedUrl) = Some response \<Longrightarrow> statusCode response = code"
  by (auto simp: serveError_def Let_def split: option.splits if_splits)

lemma serveError_responds:
  "(case parsedUrl of None \<Rightarrow> False | Some u \<Rightarrow> endsWith (pathname u) ''.json'') \<or>
     (fetchClientTheme S \<noteq> None \<and> fs_readFile S (workbench_error_html S) \<noteq> None) \<Longrightarrow>
   result (serveError S code message parsedUrl) \<noteq> None"
  by (auto simp: serveError_def Let_def split: option.splits if_splits)

text \<open>
  Claim C6. When the decoded and normalized path of a \<open>/static/\<close> request, joined to the
  application root, is not equal to or below the application root (case is ignored unless
  the platform is Linux), the request is handed to the error page with status 400: every
  response it writes has status 400, it always writes one for a \<open>.json\<close> path or when the
  theme and the error template are available; no file is stat'ed or opened as a stream,
  and the only file read is the template of the error page.
\<close>

theorem static_outside_root_rejected:
  assumes decoded: "decodeURIComponent P (pathname parsedUrl) = Some normalizedPathname"
    and resolved: "filePath =
      join P [APP_ROOT S, normalize P (drop (length ''/static/'') normalizedPathname)]"
    and outside: "\<not> isEqualOrParent P filePath (APP_ROOT S) (\<not> isLinux S)"
  shows "handleStatic P S req parsedUrl = serveError S 400 ''Bad request.'' (Some parsedUrl) \<and>
         (\<forall>response. result (handleStatic P S req parsedUrl) = Some response \<longrightarrow>
            statusCode response = 400) \<and>
         (endsWith (pathname parsedUrl) ''.json'' \<or>
            (fetchClientTheme S \<noteq> None \<and> fs_readFile S (workbench_error_html S) \<noteq> None) \<longrightarrow>
          result (handleStatic P S req parsedUrl) \<noteq> None) \<and>
         (\<forall>p. Stat p \<notin> set (fs_ops (handleStatic P S req parsedUrl)) \<and>
              CreateReadStream p \<notin> set (fs_ops (handleStatic P S req parsedUrl)) \<and>
              (ReadFile p \<in> set (fs_ops (handleStatic P S req parsedUrl)) \<longrightarrow>
                 p = workbench_error_html S))"
proof -
  have h: "handleStatic P S req parsedUrl = serveError S 400 ''Bad request.'' (Some parsedUrl)"
    using assms by (simp add: handleStatic_def Let_def)
  show ?thesis
    unfolding h
    using serveError_no_stat [of _ S 400 "''Bad request.''" "Some parsedUrl"]
      serveError_reads_template [of _ S 400 "''Bad request.''" "Some parsedUrl"]
      serveError_status [of S 400 "''Bad request.''" "Some parsedUrl"]
      serveError_responds [of "Some parsedUrl" S 400 "''Bad request.''"]
    by auto
qed

theorem static_outside_root_rejected_witness:
  "handleStatic posix_platform sample_server (incoming []) static_escape =
     \<lparr>fs_ops = [ReadFile ''/app/out/vs/code/browser/workbench/workbench-error.html''],
      result = Some \<lparr>statusCode = 400, statusMessage = Some ''Bad request.'',
        headers = [(''Content-Type'', ''text/html'')],
        body = ErrorPage ''<h1>{{ERROR_CODE}}</h1>'' ''code-server'' 400 ''Bad request.''
          ''1.56.1 - development''
          \<lparr>backgroundColor = ''#1e1e1e'', foregroundColor = ''#d4d4d4''\<rparr>\<rparr>\<rparr>"
proof -
  have d: "decodeURIComponent posix_platform (pathname static_escape) =
      Some ''/static/../../etc/passwd.txt''"
    by (simp add: posix_platform_def posix_decodeURIComponent_def static_escape_def)
  have n: "normalize posix_platform (drop (length ''/static/'') ''/static/../../etc/passwd.txt'') =
      ''../../etc/passwd.txt''"
    by (simp add: posix_platform_def posix_normalize_def)
  have j: "''/etc/passwd.txt'' = join posix_platform [APP_ROOT sample_server,
      normalize posix_platform (drop (length ''/static/'') ''/static/../../etc/passwd.txt'')]"
    unfolding n by (simp add: posix_platform_def sample_server_def posix_join_def posix_normalize_def)
  have out: "\<not> isEqualOrParent posix_platform ''/etc/passwd.txt'' (APP_ROOT sample_server)
      (\<not> isLinux sample_server)"
    by (simp add: posix_platform_def sample_server_def sample_isEqualOrParent_def)
  have e: "serveError sample_server 400 ''Bad request.'' (Some static_escape) =
     \<lparr>fs_ops = [ReadFile ''/app/out/vs/code/browser/workbench/workbench-error.html''],
      result = Some \<lparr>statusCode = 400, statusMessage = Some ''Bad request.'',
        headers = [(''Content-Type'', ''text/html'')],
        body = ErrorPage ''<h1>{{ERROR_CODE}}</h1>'' ''code-server'' 400 ''Bad request.''
          ''1.56.1 - development''
          \<lparr>backgroundColor = ''#1e1e1e'', foregroundColor = ''#d4d4d4''\<rparr>\<rparr>\<rparr>"
    by (simp add: serveError_def sample_server_def static_escape_def endsWith_def)
  show ?thesis
    using static_outside_root_rejected [OF d j out, THEN conjunct1, of "incoming []"]
    by (simp add: e)
qed

lemma parse_nested_manifest:
  "path_parse posix_platform (pathname nested_manifest) =
     \<lparr>pp_dir = ''/foo/static/out'', pp_base = ''manifest.json'', pp_ext = ''.json''\<rparr>"
  by (simp add: posix_platform_def nested_manifest_def posix_parse_def no_extension_def
      slice_def Let_def)

lemma parse_unknown_path:
  "path_parse posix_platform (pathname unknown_path) =
     \<lparr>pp_dir = ''/'', pp_base = ''nothing'', pp_ext = []\<rparr>"
  by (simp add: posix_platform_def unknown_path_def posix_parse_def no_extension_def
      slice_def Let_def)

lemma parse_static_loader:
  "path_parse posix_platform (pathname static_loader) =
     \<lparr>pp_dir = ''/static'', pp_base = ''loader.js'', pp_ext = ''.js''\<rparr>"
  by (simp add: posix_platform_def static_loader_def posix_parse_def no_extension_def
      slice_def Let_def)

text \<open>
  Claim C5, as amended. For a request whose path contains \<open>/static/\<close> exactly when the
  directory part of the path does, the dispatcher takes the first of the seven rules, in
  the documented order (manifest, fixed icons, service-worker file, \<open>/static/\<close> with an
  extension, callback, fetch-callback, trailing slash), whose predicate holds, and calls the
  handler of that rule and nothing else. When no predicate holds and the listeners of the
  request for error events return, it emits the \<open>not found\<close> error event and does nothing
  else. When no predicate holds and the request has no listener for error events, it
  answers 500 through the error page; when a listener throws, it answers 500 after the
  event.
\<close>

theorem handle_first_match:
  assumes "includes_str (pp_dir (path_parse P (pathname parsedUrl))) ''/static/'' =
      includes_str (pathname parsedUrl) ''/static/''"
  shows "(list_ex (\<lambda>(applies, handler). applies P S parsedUrl) rules \<or>
          error_listeners req = ListenersReturn \<longrightarrow>
            handle P S req parsedUrl = [first_match rules P S parsedUrl]) \<and>
         (list_all (\<lambda>(applies, handler). \<not> applies P S parsedUrl) rules \<longrightarrow>
            handle P S req parsedUrl =
              (case error_listeners req of
                 NoListener \<Rightarrow> [ServeError 500 ''Internal Server Error.'' parsedUrl]
               | ListenersReturn \<Rightarrow>
                   [EmitError ([dquote] @ pathname parsedUrl @ [dquote] @ '' not found.'')]
               | ListenerThrows \<Rightarrow>
                   [EmitError ([dquote] @ pathname parsedUrl @ [dquote] @ '' not found.''),
                    ServeError 500 ''Internal Server Error.'' parsedUrl]))"
  using assms
  by (simp add: handle_def handle_try_def emit_error_def rules_def Let_def not_found_def
      is_manifest_def is_icon_def is_service_worker_def is_static_def is_callback_def
      is_fetch_callback_def is_root_def
      to_manifest_def to_icon_def to_service_worker_def to_static_def to_callback_def
      to_fetch_callback_def to_root_def split: error_listeners.splits)

theorem handle_first_match_witness:
  "handle posix_platform sample_server request_with_listener nested_manifest =
     [HandleManifest nested_manifest] \<and>
   handle posix_platform sample_server request_with_listener unknown_path =
     [EmitError ([dquote] @ ''/nothing'' @ [dquote] @ '' not found.'')]"
proof -
  have sm: "includes_str (pp_dir (path_parse posix_platform (pathname nested_manifest)))
      ''/static/'' = includes_str (pathname nested_manifest) ''/static/''"
    unfolding parse_nested_manifest
    by (simp add: nested_manifest_def includes_str_def)
  have su: "includes_str (pp_dir (path_parse posix_platform (pathname unknown_path)))
      ''/static/'' = includes_str (pathname unknown_path) ''/static/''"
    unfolding parse_unknown_path
    by (simp add: unknown_path_def includes_str_def)
  have none: "list_all (\<lambda>(applies, handler). \<not> applies posix_platform sample_server unknown_path)
      rules"
    by (simp add: rules_def is_manifest_def is_icon_def is_service_worker_def is_static_def
        is_callback_def is_fetch_callback_def is_root_def parse_unknown_path
        sample_server_def includes_str_def endsWith_def)
       (simp add: unknown_path_def)
  have a: "handle posix_platform sample_server request_with_listener nested_manifest =
      [HandleManifest nested_manifest]"
    using handle_first_match [OF sm, of sample_server request_with_listener, THEN conjunct1]
    by (simp add: rules_def is_manifest_def to_manifest_def parse_nested_manifest)
  have b: "handle posix_platform sample_server request_with_listener unknown_path =
     [EmitError ([dquote] @ ''/nothing'' @ [dquote] @ '' not found.'')]"
    using handle_first_match [OF su, of sample_server request_with_listener, THEN conjunct2] none
    by (simp add: unknown_path_def request_with_listener_def)
  show ?thesis using a b by simp
qed

text \<open>
  Claim C5 as it was stated fails. The path \<open>/static/loader.js\<close> contains \<open>/static/\<close> and
  has an extension, so that the fourth rule of the specification applies to it; its
  directory part is \<open>/static\<close>, and the dispatcher emits the \<open>not found\<close> error event. For
  \<open>/nothing\<close>, to which no rule applies, on a request without a listener for error events,
  the dispatcher emits no event and answers 500.
\<close>

theorem dispatch_departs_from_rules:
  "first_match rules posix_platform sample_server static_loader = HandleStatic static_loader \<and>
   handle posix_platform sample_server request_with_listener static_loader =
     [EmitError ([dquote] @ ''/static/loader.js'' @ [dquote] @ '' not found.'')] \<and>
   list_all (\<lambda>(applies, handler). \<not> applies posix_platform sample_server unknown_path) rules \<and>
   handle posix_platform sample_server request_without_listener unknown_path =
     [ServeError 500 ''Internal Server Error.'' unknown_path]"
proof -
  have a: "first_match rules posix_platform sample_server static_loader =
      HandleStatic static_loader"
    by (simp add: rules_def is_manifest_def is_icon_def is_service_worker_def is_static_def
        to_static_def parse_static_loader sample_server_def)
       (simp add: static_loader_def includes_str_def)
  have b: "handle posix_platform sample_server request_with_listener static_loader =
      [EmitError ([dquote] @ ''/static/loader.js'' @ [dquote] @ '' not found.'')]"
    by (simp add: handle_def handle_try_def emit_error_def Let_def parse_static_loader
        sample_server_def request_with_listener_def includes_str_def endsWith_def)
       (simp add: static_loader_def)
  have c: "list_all (\<lambda>(applies, handler). \<not> applies posix_platform sample_server unknown_path)
      rules"
    by (simp add: rules_def is_manifest_def is_icon_def is_service_worker_def is_static_def
        is_callback_def is_fetch_callback_def is_root_def parse_unknown_path
        sample_server_def includes_str_def endsWith_def)
       (simp add: unknown_path_def)
  have d: "handle posix_platform sample_server request_without_listener unknown_path =
      [ServeError 500 ''Internal Server Error.'' unknown_path]"
    by (simp add: handle_def handle_try_def emit_error_def Let_def parse_unknown_path
        sample_server_def request_without_listener_def includes_str_def endsWith_def)
       (simp add: unknown_path_def)
  show ?thesis using a b c d by simp
qed

section \<open>The root document: token upgrade and remote authority\<close>

lemma update_new_key: "k \<notin> fst ` set al \<Longrightarrow> AList.update k v al = al @ [(k, v)]"
  by (induction al) auto

lemma newQuery_loop_append:
  assumes "\<forall>(k, v) \<in> set xs. map_of q k = Some v"
    and "distinct (map fst xs)"
    and "fst ` set acc \<inter> fst ` set xs = {}"
  shows "newQuery_loop q (map fst xs) acc = acc @ filter (\<lambda>(k, v). k \<noteq> ''tkn'') xs"
  using assms
proof (induction xs arbitrary: acc)
  case Nil
  then show ?case by simp
next
  case (Cons x xs)
  obtain k v where x: "x = (k, v)" by (cases x)
  have look: "map_of q k = Some v" using Cons.prems(1) x by simp
  have fresh: "k \<notin> fst ` set acc" using Cons.prems(3) x by auto
  have rest: "\<forall>(k, v) \<in> set xs. map_of q k = Some v" "distinct (map fst xs)"
    using Cons.prems by auto
  show ?case
  proof (cases "k = ''tkn''")
    case True
    have "fst ` set acc \<inter> fst ` set xs = {}" using Cons.prems(3) by auto
    then show ?thesis using Cons.IH [OF rest] True x by simp
  next
    case False
    have "fst ` set (acc @ [(k, v)]) \<inter> fst ` set xs = {}"
      using Cons.prems(2,3) x by auto
    then have "newQuery_loop q (map fst xs) (acc @ [(k, v)]) =
        (acc @ [(k, v)]) @ filter (\<lambda>(k, v). k \<noteq> ''tkn'') xs"
      using Cons.IH [OF rest] by blast
    then show ?thesis using False x look fresh by (simp add: update_new_key)
  qed
qed

lemma newQuery_loop_filter:
  assumes "distinct (map fst q)"
  shows "newQuery_loop q (map fst q) [] = filter (\<lambda>(k, v). k \<noteq> ''tkn'') q"
proof -
  have "\<forall>(k, v) \<in> set q. map_of q k = Some v" using assms by auto
  then show ?thesis using newQuery_loop_append [of q q "[]"] assms by simp
qed

text \<open>
  Claim C2, as amended. A request to the root document that carries a \<open>Host\<close> header, for
  which the theme can be fetched, and whose query holds \<open>tkn\<close> once, as a single string,
  is answered 302 with the headers \<open>Set-Cookie\<close>, the serialization of the cookie
  \<open>vscode-tkn\<close> with the value of \<open>tkn\<close>, \<open>SameSite\<close> strict and a maximal age of
  604800 seconds, and \<open>Location\<close>, the URL that \<open>url.format\<close> makes of a path and of the
  query of the request without \<open>tkn\<close>, every other parameter kept, in order; when the path
  of the request is \<open>/\<close>, that path is the path of the request.
\<close>

theorem root_token_redirect:
  assumes host: "truthy (req_headers req ''host'')"
    and theme: "fetchClientTheme S = Some theme"
    and token: "map_of (query parsedUrl) ''tkn'' = Some (QString tkn)"
    and keys: "distinct (map fst (query parsedUrl))"
  shows "\<exists>path.
           handleRoot P S req parsedUrl =
             Responded
               \<lparr>fs_ops = [],
                result = Some \<lparr>statusCode = 302, statusMessage = None,
                  headers =
                    [(''Set-Cookie'', cookie_serialize P ''vscode-tkn'' tkn ''strict'' 604800),
                     (''Location'',
                      url_format P path
                        (filter (\<lambda>(k, v). k \<noteq> ''tkn'') (query parsedUrl)))],
                  body = NoBody\<rparr>\<rparr> \<and>
           (pathname parsedUrl = ''/'' \<longrightarrow> path = pathname parsedUrl)"
proof -
  have "handleRoot P S req parsedUrl =
      Responded
        \<lparr>fs_ops = [],
         result = Some \<lparr>statusCode = 302, statusMessage = None,
           headers =
             [(''Set-Cookie'', cookie_serialize P ''vscode-tkn'' tkn ''strict'' 604800),
              (''Location'',
               url_format P ''/'' (filter (\<lambda>(k, v). k \<noteq> ''tkn'') (query parsedUrl)))],
           body = NoBody\<rparr>\<rparr>"
    using host theme token by (simp add: handleRoot_def Let_def newQuery_loop_filter [OF keys])
  then show ?thesis by auto
qed

lemma host_example: "truthy (req_headers (incoming [(''Host'', ''example.com'')]) ''host'')"
  by (simp add: incoming_def truthy_def toLowerCase_char_def)

lemma theme_sample:
  "fetchClientTheme sample_server =
     Some \<lparr>backgroundColor = ''#1e1e1e'', foregroundColor = ''#d4d4d4''\<rparr>"
  by (simp add: sample_server_def)

theorem root_token_redirect_witness:
  "handleRoot posix_platform sample_server (incoming [(''Host'', ''example.com'')])
     root_with_token =
   Responded
     \<lparr>fs_ops = [],
      result = Some \<lparr>statusCode = 302, statusMessage = None,
        headers = [(''Set-Cookie'', ''vscode-tkn=SECRET; Max-Age=604800; SameSite=Strict''),
                   (''Location'', ''/?foo=1'')],
        body = NoBody\<rparr>\<rparr>"
proof -
  have t: "map_of (query root_with_token) ''tkn'' = Some (QString ''SECRET'')"
    by (simp add: root_with_token_def)
  have k: "distinct (map fst (query root_with_token))"
    by (simp add: root_with_token_def)
  have c: "cookie_serialize posix_platform ''vscode-tkn'' ''SECRET'' ''strict'' 604800 =
      ''vscode-tkn=SECRET; Max-Age=604800; SameSite=Strict''"
    by (simp add: posix_platform_def sample_cookie_serialize_def encodeURIComponent_def
        percent_encode_char_def unreserved_def show_nat.simps)
  have u: "url_format posix_platform (pathname root_with_token)
      (filter (\<lambda>(k, v). k \<noteq> ''tkn'') (query root_with_token)) = ''/?foo=1''"
    by (simp add: posix_platform_def sample_url_format_def stringify_entry_def
        encodeURIComponent_def percent_encode_char_def unreserved_def root_with_token_def)
  have p: "pathname root_with_token = ''/''"
    by (simp add: root_with_token_def)
  show ?thesis
    using root_token_redirect [OF host_example theme_sample t k, of posix_platform] c u p
    by auto
qed

lemma serveError_sample_html:
  "\<not> endsWith (pathname u) ''.json'' \<Longrightarrow>
   serveError sample_server code message (Some u) =
     \<lparr>fs_ops = [ReadFile ''/app/out/vs/code/browser/workbench/workbench-error.html''],
      result = Some \<lparr>statusCode = code, statusMessage = Some message,
        headers = [(''Content-Type'', ''text/html'')],
        body = ErrorPage ''<h1>{{ERROR_CODE}}</h1>'' ''code-server'' code message
          ''1.56.1 - development''
          \<lparr>backgroundColor = ''#1e1e1e'', foregroundColor = ''#d4d4d4''\<rparr>\<rparr>\<rparr>"
  by (simp add: serveError_def sample_server_def)

text \<open>
  Claim C2 as it was stated fails: a root request with \<open>?tkn=SECRET&foo=1\<close> and no
  \<open>Host\<close> header is answered 400, and a root request in which \<open>tkn\<close> occurs twice is
  not redirected but rendered.
\<close>

theorem root_token_not_always_redirected:
  "handleRoot posix_platform sample_server (incoming []) root_with_token =
     Responded
       \<lparr>fs_ops = [ReadFile ''/app/out/vs/code/browser/workbench/workbench-error.html''],
        result = Some \<lparr>statusCode = 400, statusMessage = Some ''Bad request.'',
          headers = [(''Content-Type'', ''text/html'')],
          body = ErrorPage ''<h1>{{ERROR_CODE}}</h1>'' ''code-server'' 400 ''Bad request.''
            ''1.56.1 - development''
            \<lparr>backgroundColor = ''#1e1e1e'', foregroundColor = ''#d4d4d4''\<rparr>\<rparr>\<rparr> \<and>
   handleRoot posix_platform sample_server (incoming [(''Host'', ''example.com'')])
     root_with_two_tokens =
     RenderWorkbench
       \<lparr>url_protocol = ''http:'', url_hostname = ''example.com'', url_port = []\<rparr>
       ''example.com:80''"
proof -
  have e: "\<not> endsWith (pathname root_with_token) ''.json''"
    by (simp add: root_with_token_def endsWith_def)
  have a: "handleRoot posix_platform sample_server (incoming []) root_with_token =
      Responded (serveError sample_server 400 ''Bad request.'' (Some root_with_token))"
    by (simp add: handleRoot_def incoming_def truthy_def)
  have i: "remoteAuthority_input posix_platform (incoming [(''Host'', ''example.com'')]) =
      Some ''http://example.com''"
    by (simp add: remoteAuthority_input_def incoming_def truthy_def toLowerCase_char_def
        posix_platform_def sample_isFalsyOrWhitespace_def or_default_def)
  have n: "new_URL posix_platform ''http://example.com'' =
      Some \<lparr>url_protocol = ''http:'', url_hostname = ''example.com'', url_port = []\<rparr>"
    by (simp add: posix_platform_def sample_new_URL_def toLowerCase_char_def Let_def)
  have b: "handleRoot posix_platform sample_server (incoming [(''Host'', ''example.com'')])
     root_with_two_tokens =
     RenderWorkbench
       \<lparr>url_protocol = ''http:'', url_hostname = ''example.com'', url_port = []\<rparr>
       ''example.com:80''"
    by (simp add: handleRoot_def host_example theme_sample root_with_two_tokens_def
        getRemoteAuthority_def i n config_remoteAuthority_def)
  show ?thesis using a b by (simp add: serveError_sample_html [OF e])
qed

lemma toLowerCase_char_not_X: "toLowerCase_char c \<noteq> CHR ''X''"
  by (auto simp: toLowerCase_char_def split: option.splits if_splits)

lemma incoming_lower_case:
  "req_headers (incoming raw) (CHR ''X'' # name) = None"
proof -
  have "CHR ''X'' # name \<notin> fst ` set (map (\<lambda>(name, v). (map toLowerCase_char name, v)) raw)"
    using toLowerCase_char_not_X by (auto simp: image_iff) (metis list.simps(9) list.inject map_eq_Cons_conv)
  then show ?thesis
    by (simp add: incoming_def map_of_eq_None_iff)
qed

lemma x_forwarded_proto_never_read:
  assumes "isFalsyOrWhitespace P None"
    and "\<not> truthy (req_headers (incoming raw) ''forwarded'')"
  shows "\<exists>host. remoteAuthority_input P (incoming raw) = Some (''http://'' @ host)"
  using assms incoming_lower_case [of raw "''-Forwarded-Proto''"]
  by (simp add: remoteAuthority_input_def or_default_def)

text \<open>
  Claim C8, evaluated where the code departs from it: for a request with the headers
  \<open>Host: example.com\<close> and \<open>X-Forwarded-Proto: https\<close> the remote authority is
  \<open>http://example.com\<close> and the port written into the configuration is 80. The header
  names of \<open>req.headers\<close> are lower-cased, and the source looks up \<open>X-Forwarded-Proto\<close>
  and \<open>X-Forwarded-Host\<close> as they are written here, so neither is ever found.
\<close>

theorem forwarded_proto_header_not_read:
  "remoteAuthority_input posix_platform behind_proxy = Some ''http://example.com'' \<and>
   handleRoot posix_platform sample_server behind_proxy root_plain =
     RenderWorkbench
       \<lparr>url_protocol = ''http:'', url_hostname = ''example.com'', url_port = []\<rparr>
       ''example.com:80''"
proof -
  have h: "truthy (req_headers behind_proxy ''host'')"
    by (simp add: behind_proxy_def incoming_def truthy_def toLowerCase_char_def)
  have i: "remoteAuthority_input posix_platform behind_proxy = Some ''http://example.com''"
    by (simp add: remoteAuthority_input_def behind_proxy_def incoming_def truthy_def
        toLowerCase_char_def posix_platform_def sample_isFalsyOrWhitespace_def or_default_def)
  have n: "new_URL posix_platform ''http://example.com'' =
      Some \<lparr>url_protocol = ''http:'', url_hostname = ''example.com'', url_port = []\<rparr>"
    by (simp add: posix_platform_def sample_new_URL_def toLowerCase_char_def Let_def)
  have r: "handleRoot posix_platform sample_server behind_proxy root_plain =
     RenderWorkbench
       \<lparr>url_protocol = ''http:'', url_hostname = ''example.com'', url_port = []\<rparr>
       ''example.com:80''"
    by (simp add: handleRoot_def h theme_sample root_plain_def getRemoteAuthority_def i n
        config_remoteAuthority_def)
  show ?thesis using i r by simp
qed

section \<open>Hashes of inline scripts: the scan\<close>

lemma len_open: "length ''<script>'' = 8"
  by simp

lemma len_close: "length ''</script>'' = 9"
  by simp

lemmas lazy_group_Cons = lazy_group.simps(2) [unfolded len_close]

lemmas match_here_alt = match_here_def [unfolded len_open]

declare lazy_group.simps(2) [simp del]

lemma drop_Suc_add: "drop (Suc k + n) (c # cs) = drop (k + n) cs"
  by (simp only: add_Suc drop_Suc_Cons)

lemma content_between_Suc:
  "content_between (c # cs) (Suc i) (Suc j) = content_between cs i j"
  unfolding content_between_def by (simp only: add_Suc drop_Suc_Cons diff_Suc_Suc)

lemma occurrence_Suc: "occurrence (c # cs) (Suc i) (Suc j) = occurrence cs i j"
  by (auto simp: occurrence_def)

lemma occurrence_pos: "occurrence s i j \<Longrightarrow> \<exists>j'. j = Suc j'"
  by (cases j) (auto simp: occurrence_def)

lemma lazy_group_None:
  "lazy_group s = None \<Longrightarrow> \<not> matches_literal ''</script>'' (drop k s)"
proof (induction s arbitrary: k)
  case Nil
  then show ?case by simp
next
  case (Cons c cs)
  then have here: "\<not> matches_literal ''</script>'' (c # cs)" and rest: "lazy_group cs = None"
    by (auto simp: lazy_group_Cons split: if_splits option.splits)
  show ?case
  proof (cases k)
    case 0
    then show ?thesis using here by simp
  next
    case (Suc k')
    then show ?thesis using Cons.IH [OF rest, of k'] by simp
  qed
qed

lemma lazy_group_Some:
  "lazy_group s = Some (g, rest) \<Longrightarrow>
   \<exists>k. matches_literal ''</script>'' (drop k s) \<and>
       (\<forall>k'<k. \<not> matches_literal ''</script>'' (drop k' s)) \<and>
       g = take k s \<and> rest = drop (k + 9) s"
proof (induction s arbitrary: g rest)
  case Nil
  then show ?case by simp
next
  case (Cons c cs)
  show ?case
  proof (cases "matches_literal ''</script>'' (c # cs)")
    case True
    then have "g = []" "rest = drop 9 (c # cs)"
      using Cons.prems by (auto simp: lazy_group_Cons)
    then show ?thesis using True by (intro exI [of _ 0]) simp
  next
    case False
    then obtain g' where g': "lazy_group cs = Some (g', rest)" and g: "g = c # g'"
      using Cons.prems by (auto simp: lazy_group_Cons split: option.splits)
    from Cons.IH [OF g'] obtain k where k:
      "matches_literal ''</script>'' (drop k cs)"
      "\<forall>k'<k. \<not> matches_literal ''</script>'' (drop k' cs)"
      "g' = take k cs" "rest = drop (k + 9) cs"
      by blast
    have "\<forall>k'<Suc k. \<not> matches_literal ''</script>'' (drop k' (c # cs))"
    proof (intro allI impI)
      fix k' assume "k' < Suc k"
      then show "\<not> matches_literal ''</script>'' (drop k' (c # cs))"
        using False k(2) by (cases k') auto
    qed
    moreover have "rest = drop (Suc k + 9) (c # cs)"
      using k(4) by (simp only: drop_Suc_add)
    moreover have "g = take (Suc k) (c # cs)" using g k(3) by simp
    moreover have "matches_literal ''</script>'' (drop (Suc k) (c # cs))" using k(1) by simp
    ultimately show ?thesis by blast
  qed
qed

lemma drop_8_Cons: "drop 8 s = c # cs \<Longrightarrow> drop (9 + k) s = drop k cs"
proof -
  assume a: "drop 8 s = c # cs"
  have "drop (9 + k) s = drop (Suc k) (drop 8 s)" by simp
  then show ?thesis using a by simp
qed

lemma match_here_None: "match_here s = None \<Longrightarrow> \<not> occurrence s 0 j"
proof
  assume m: "match_here s = None" and o: "occurrence s 0 j"
  from o have op: "matches_literal ''<script>'' s" and j: "8 < j"
    and cl: "matches_literal ''</script>'' (drop j s)"
    by (auto simp: occurrence_def)
  define k where "k = j - 9"
  have k: "j = 9 + k" using j by (simp add: k_def)
  show False
  proof (cases "drop 8 s")
    case Nil
    then have "drop j s = []" using j by simp
    then show False using cl by simp
  next
    case (Cons c cs)
    then have "lazy_group cs = None"
      using m op by (auto simp: match_here_alt split: option.splits)
    then have "\<not> matches_literal ''</script>'' (drop k cs)" by (rule lazy_group_None)
    then show False using cl k drop_8_Cons [OF Cons, of k] by simp
  qed
qed

lemma match_here_Some:
  assumes "match_here s = Some (g, rest)"
  shows "\<exists>j. occurrence s 0 j \<and> (\<forall>j'. occurrence s 0 j' \<longrightarrow> j \<le> j') \<and>
             g = content_between s 0 j \<and> rest = drop (j + 9) s"
proof -
  from assms obtain c cs g' where op: "matches_literal ''<script>'' s"
    and d: "drop 8 s = c # cs" and l: "lazy_group cs = Some (g', rest)" and g: "g = c # g'"
    by (auto simp: match_here_alt split: if_splits list.splits option.splits)
  from lazy_group_Some [OF l] obtain k where k:
    "matches_literal ''</script>'' (drop k cs)"
    "\<forall>k'<k. \<not> matches_literal ''</script>'' (drop k' cs)"
    "g' = take k cs" "rest = drop (k + 9) cs"
    by blast
  have occ: "occurrence s 0 (9 + k)"
    using op k(1) drop_8_Cons [OF d, of k] by (simp add: occurrence_def)
  have least: "\<forall>j'. occurrence s 0 j' \<longrightarrow> 9 + k \<le> j'"
  proof (intro allI impI)
    fix j' assume o: "occurrence s 0 j'"
    then have j': "8 < j'" and cl: "matches_literal ''</script>'' (drop j' s)"
      by (auto simp: occurrence_def)
    define k' where "k' = j' - 9"
    have e: "j' = 9 + k'" using j' by (simp add: k'_def)
    have "matches_literal ''</script>'' (drop k' cs)"
      using cl e drop_8_Cons [OF d, of k'] by simp
    then have "\<not> k' < k" using k(2) by blast
    then show "9 + k \<le> j'" using e by simp
  qed
  have content: "g = content_between s 0 (9 + k)"
    using g k(3) d by (simp add: content_between_def)
  have "drop (9 + (k + 9)) s = drop (k + 9) cs" by (rule drop_8_Cons [OF d])
  then have r: "rest = drop (9 + k + 9) s" using k(4) by (simp add: add.commute add.left_commute)
  show ?thesis using occ least content r by blast
qed

lemma regex_exec_None: "regex_exec s = None \<Longrightarrow> \<not> occurrence s i j"
proof (induction s arbitrary: i j)
  case Nil
  then show ?case by (simp add: occurrence_def)
next
  case (Cons c cs)
  then have here: "match_here (c # cs) = None" and rest: "regex_exec cs = None"
    by (auto split: option.splits)
  show ?case
  proof (cases i)
    case 0
    then show ?thesis using match_here_None [OF here] by simp
  next
    case (Suc i')
    show ?thesis
    proof
      assume o: "occurrence (c # cs) i j"
      then obtain j' where j': "j = Suc j'" using occurrence_pos by blast
      then have "occurrence cs i' j'" using o Suc by (simp add: occurrence_Suc)
      then show False using Cons.IH [OF rest] by blast
    qed
  qed
qed

lemma regex_exec_Some:
  "regex_exec s = Some (g, rest) \<Longrightarrow>
   \<exists>i j. first_occurrence s i j \<and> g = content_between s i j \<and> rest = drop (j + 9) s"
proof (induction s)
  case Nil
  then show ?case by simp
next
  case (Cons c cs)
  show ?case
  proof (cases "match_here (c # cs)")
    case (Some m)
    then have "match_here (c # cs) = Some (g, rest)" using Cons.prems by simp
    from match_here_Some [OF this] obtain j where j:
      "occurrence (c # cs) 0 j" "\<forall>j'. occurrence (c # cs) 0 j' \<longrightarrow> j \<le> j'"
      "g = content_between (c # cs) 0 j" "rest = drop (j + 9) (c # cs)"
      by blast
    then have "first_occurrence (c # cs) 0 j" by (simp add: first_occurrence_def)
    then show ?thesis using j by blast
  next
    case None
    then have "regex_exec cs = Some (g, rest)" using Cons.prems by simp
    from Cons.IH [OF this] obtain i j where ij:
      "first_occurrence cs i j" "g = content_between cs i j" "rest = drop (j + 9) cs"
      by blast
    have nothere: "\<not> occurrence (c # cs) 0 j'" for j'
      using match_here_None [OF None] by blast
    have f: "first_occurrence (c # cs) (Suc i) (Suc j)"
      unfolding first_occurrence_def
    proof (intro conjI allI impI)
      show "occurrence (c # cs) (Suc i) (Suc j)"
        using ij(1) by (simp add: first_occurrence_def occurrence_Suc)
    next
      fix i' j' assume o: "occurrence (c # cs) i' j'"
      obtain j'' where j'': "j' = Suc j''" using o occurrence_pos by blast
      show "Suc i \<le> i'"
      proof (cases i')
        case 0
        then show ?thesis using o nothere by blast
      next
        case (Suc i'')
        then have "occurrence cs i'' j''" using o j'' by (simp add: occurrence_Suc)
        then have "i \<le> i''" using ij(1) by (auto simp: first_occurrence_def)
        then show ?thesis using Suc by simp
      qed
    next
      fix j' assume o: "occurrence (c # cs) (Suc i) j'"
      obtain j'' where j'': "j' = Suc j''" using o occurrence_pos by blast
      then have "occurrence cs i j''" using o by (simp add: occurrence_Suc)
      then have "j \<le> j''" using ij(1) by (auto simp: first_occurrence_def)
      then show "Suc j \<le> j'" using j'' by simp
    qed
    have "g = content_between (c # cs) (Suc i) (Suc j)"
      using ij(2) by (simp only: content_between_Suc)
    moreover have "rest = drop (Suc j + 9) (c # cs)" using ij(3) by (simp only: drop_Suc_add)
    ultimately show ?thesis using f by blast
  qed
qed

lemma first_occurrence_unique:
  "first_occurrence s i j \<Longrightarrow> first_occurrence s i' j' \<Longrightarrow> i = i' \<and> j = j'"
proof -
  assume a: "first_occurrence s i j" and b: "first_occurrence s i' j'"
  have "i \<le> i'" "i' \<le> i" using a b by (auto simp: first_occurrence_def)
  then have i: "i = i'" by simp
  have "j \<le> j'" "j' \<le> j" using a b i by (auto simp: first_occurrence_def)
  then show ?thesis using i by simp
qed

lemma regex_exec_first:
  assumes "first_occurrence s i j"
  shows "regex_exec s = Some (content_between s i j, drop (j + 9) s)"
proof (cases "regex_exec s")
  case None
  then show ?thesis using regex_exec_None assms by (auto simp: first_occurrence_def)
next
  case (Some m)
  obtain g rest where m: "m = (g, rest)" by (cases m)
  from regex_exec_Some [of s g rest] Some m obtain i' j' where
    "first_occurrence s i' j'" "g = content_between s i' j'" "rest = drop (j' + 9) s"
    by auto
  then show ?thesis using first_occurrence_unique [OF assms, of i' j'] Some m by simp
qed

lemma regex_exec_no_occurrence:
  assumes "\<forall>i j. \<not> occurrence s i j"
  shows "regex_exec s = None"
proof (cases "regex_exec s")
  case None
  then show ?thesis .
next
  case (Some m)
  obtain g rest where m: "m = (g, rest)" by (cases m)
  from regex_exec_Some [of s g rest] Some m assms show ?thesis
    by (auto simp: first_occurrence_def)
qed

lemma getScriptCspHashes_loop_acc:
  "getScriptCspHashes_loop P s res = res @ getScriptCspHashes_loop P s []"
proof (induction "length s" arbitrary: s res rule: less_induct)
  case less
  show ?case
  proof (cases "regex_exec s")
    case None
    then show ?thesis by (simp add: getScriptCspHashes_loop.simps [of P s])
  next
    case (Some m)
    obtain g rest where m: "m = (g, rest)" by (cases m)
    have shorter: "length rest < length s"
      using Some m regex_exec_shorter by blast
    have a: "getScriptCspHashes_loop P s res =
        getScriptCspHashes_loop P rest (res @ [csp_hash P g])"
      using Some m by (simp add: getScriptCspHashes_loop.simps [of P s res])
    have b: "getScriptCspHashes_loop P s [] = getScriptCspHashes_loop P rest [csp_hash P g]"
      using Some m by (simp add: getScriptCspHashes_loop.simps [of P s "[]"])
    have c: "getScriptCspHashes_loop P rest (res @ [csp_hash P g]) =
        (res @ [csp_hash P g]) @ getScriptCspHashes_loop P rest []"
      by (rule less [OF shorter])
    have d: "getScriptCspHashes_loop P rest [csp_hash P g] =
        [csp_hash P g] @ getScriptCspHashes_loop P rest []"
      by (rule less [OF shorter])
    show ?thesis unfolding a b c d by simp
  qed
qed

lemma getScriptCspHashes_unfold:
  "getScriptCspHashes P s =
     (case regex_exec s of
        None \<Rightarrow> []
      | Some (g, rest) \<Rightarrow> csp_hash P g # getScriptCspHashes P rest)"
proof (cases "regex_exec s")
  case None
  then show ?thesis
    by (simp add: getScriptCspHashes_def getScriptCspHashes_loop.simps [of P s])
next
  case (Some m)
  obtain g rest where m: "m = (g, rest)" by (cases m)
  have "getScriptCspHashes_loop P s [] = getScriptCspHashes_loop P rest [csp_hash P g]"
    using Some m by (simp add: getScriptCspHashes_loop.simps [of P s "[]"])
  also have "\<dots> = [csp_hash P g] @ getScriptCspHashes_loop P rest []"
    by (rule getScriptCspHashes_loop_acc)
  finally show ?thesis using Some m by (simp add: getScriptCspHashes_def)
qed

text \<open>
  Claim C9, as amended. The extractor scans the document from the left. When the document
  holds no occurrence of \<open><script>\<close>, at least one character, \<open></script>\<close> (the tags in
  any case), it returns no entry. Otherwise its first entry belongs to the first
  occurrence, the leftmost opening tag with the nearest closing tag that leaves at least
  one character between them: the entry is \<open>'sha256-\<close>, the base64 SHA-256 digest of the
  text between the tags with every CRLF replaced by LF, and a closing quote. The entries
  that follow are those of the rest of the document after that closing tag, so the
  occurrences do not overlap and the entries are in document order.
\<close>

theorem script_hashes_by_occurrence:
  "((\<forall>i j. \<not> occurrence content i j) \<longrightarrow> getScriptCspHashes P content = []) \<and>
   (\<forall>i j. first_occurrence content i j \<longrightarrow>
      getScriptCspHashes P content =
        ([squote] @ ''sha256-'' @
           sha256_base64 P (replace_crlf (content_between content i j)) @ [squote]) #
        getScriptCspHashes P (drop (j + 9) content))"
proof (intro conjI allI impI)
  assume "\<forall>i j. \<not> occurrence content i j"
  then have "regex_exec content = None" by (rule regex_exec_no_occurrence)
  then show "getScriptCspHashes P content = []"
    by (simp add: getScriptCspHashes_unfold [of P content])
next
  fix i j assume "first_occurrence content i j"
  then have "regex_exec content = Some (content_between content i j, drop (j + 9) content)"
    by (rule regex_exec_first)
  then show "getScriptCspHashes P content =
        ([squote] @ ''sha256-'' @
           sha256_base64 P (replace_crlf (content_between content i j)) @ [squote]) #
        getScriptCspHashes P (drop (j + 9) content)"
    by (simp add: getScriptCspHashes_unfold [of P content] csp_hash_def)
qed

lemmas regex_eval =
  getScriptCspHashes_unfold match_here_alt lazy_group_Cons toUpperCase_char_def csp_hash_def

theorem script_hashes_by_occurrence_witness:
  "first_occurrence two_scripts 0 9 \<and>
   getScriptCspHashes posix_platform two_scripts =
     [[squote] @ ''sha256-'' @ sha256_base64 posix_platform ''a'' @ [squote],
      [squote] @ ''sha256-'' @ sha256_base64 posix_platform (''b'' @ [CHR 0x0A]) @ [squote]]"
proof -
  have o: "occurrence two_scripts 0 9"
    by (simp add: occurrence_def two_scripts_def toUpperCase_char_def)
  have f: "first_occurrence two_scripts 0 9"
    using o by (auto simp: first_occurrence_def occurrence_def)
  have c: "content_between two_scripts 0 9 = ''a''"
    by (simp add: content_between_def two_scripts_def)
  have r: "getScriptCspHashes posix_platform (drop (9 + 9) two_scripts) =
      [[squote] @ ''sha256-'' @ sha256_base64 posix_platform (''b'' @ [CHR 0x0A]) @ [squote]]"
    by (simp add: two_scripts_def regex_eval)
  show ?thesis
    using script_hashes_by_occurrence [of two_scripts posix_platform, THEN conjunct2,
        rule_format, OF f] f c r
    by simp
qed

text \<open>
  Claim C9 as it was stated fails: the document \<open><script></script>\<close> is an occurrence of
  \<open><script>...</script>\<close> and yields no entry, and in
  \<open><script></script><script>a</script>\<close> the two blocks yield one entry, for the text
  \<open></script><script>a\<close>.
\<close>

theorem empty_script_block_is_skipped:
  "getScriptCspHashes posix_platform empty_script = [] \<and>
   getScriptCspHashes posix_platform empty_script_then_script =
     [[squote] @ ''sha256-'' @ sha256_base64 posix_platform ''</script><script>a'' @ [squote]]"
  by (simp add: empty_script_def empty_script_then_script_def regex_eval)

end
